theory Spec2Isabelle
  imports Main "HOL-Library.List_Lexorder" "HOL-Library.Char_ord" "HOL-Library.Multiset"
    "HOL-Library.Product_Lexorder"
begin

section \<open>Values\<close>

text \<open>
  JavaScript values as the handlers meet them: the request body after the JSON body
  parser, the path and query parameter objects, and what a schema hands back.
  Numbers are the integral ones (\<open>sortOrder\<close> is declared \<open>int()\<close>).
\<close>

datatype jv = JUndef | JNull | JBool bool | JNum int | JStr string
  | JArr "jv list" | JObj "(string \<times> jv) list"

text \<open>The truthiness test of \<open>if (x)\<close>, \<open>!x\<close>, \<open>a && b\<close> and \<open>a || b\<close>.\<close>

fun truthy :: "jv \<Rightarrow> bool" where
  "truthy JUndef = False"
| "truthy JNull = False"
| "truthy (JBool b) = b"
| "truthy (JNum n) = (n \<noteq> 0)"
| "truthy (JStr s) = (s \<noteq> [])"
| "truthy (JArr xs) = True"
| "truthy (JObj kvs) = True"

text \<open>One issue of a \<open>ZodError\<close>: \<open>e.path.join('.')\<close> and \<open>e.message\<close>.\<close>

type_synonym issue = "string \<times> string"

text \<open>
  What is thrown: \<open>new Error(message)\<close>, the runtime's \<open>TypeError\<close>, and the schema library's
  \<open>ZodError\<close> with its issues. None of them has a \<open>statusCode\<close>.
\<close>

datatype err =
    Error string
  | TypeError string
  | ZodError "issue list"

text \<open>
  Property read \<open>v.k\<close>: reading a property of \<open>null\<close> or \<open>undefined\<close> throws a
  \<open>TypeError\<close>, a missing property is \<open>undefined\<close>, a primitive has none of the
  properties read here.
\<close>

fun getProp :: "jv \<Rightarrow> string \<Rightarrow> err + jv" where
  "getProp JUndef k = Inl (TypeError (''Cannot read properties of undefined (reading '' @ k @ '')''))"
| "getProp JNull k = Inl (TypeError (''Cannot read properties of null (reading '' @ k @ '')''))"
| "getProp (JObj kvs) k = Inr (case map_of kvs k of None \<Rightarrow> JUndef | Some v \<Rightarrow> v)"
| "getProp v k = Inr JUndef"

text \<open>
  The decimal text of a number that is not negative, as a template literal prints it
  (a number of more than 21 digits is printed with an exponent and is not met here).
\<close>

function decimal :: "int \<Rightarrow> string" where
  "decimal n =
     (if n < 10 then [char_of (48 + n)] else decimal (n div 10) @ [char_of (48 + n mod 10)])"
  by pat_completeness auto
termination
  by (relation "measure nat") auto

declare decimal.simps [simp del]

section \<open>The entity (domain/entities/axiom)\<close>

text \<open>
  The entity and the two inputs, as declared. \<open>name\<close> and \<open>description\<close> are declared
  \<open>string\<close>; they are optional here (\<open>None\<close> is \<open>undefined\<close>) because \<open>create\<close> copies them
  from a body that the validator skips when it is empty, and then they are \<open>undefined\<close>.
  \<open>isDefault\<close> is read by its truthiness (\<open>existing.isDefault\<close>); a stored item holds the
  attribute as the text \<open>true\<close>, under which the index of the default records lists it,
  or not at all.
\<close>

record Axiom =
  userId :: string
  axiomId :: string
  name :: "string option"
  description :: "string option"
  isDefault :: bool
  isActive :: bool
  sortOrder :: int
  createdAt :: string
  updatedAt :: string

record CreateAxiomInput =
  in_name :: "string option"
  in_description :: "string option"
  in_isActive :: "bool option"
  in_sortOrder :: "int option"

record UpdateAxiomInput =
  up_name :: "string option"
  up_description :: "string option"
  up_isActive :: "bool option"
  up_sortOrder :: "int option"

section \<open>What the code reads from outside\<close>

text \<open>
  The process environment, the clock, the random sources, the configuration of the store
  client and the two points where the behaviour of a library release decides an outcome:
  \<^item> \<open>ENVIRONMENT\<close> is \<open>process.env.ENVIRONMENT\<close>;
  \<^item> \<open>dateNow\<close> is \<open>Date.now()\<close>, \<open>isoNow\<close> is \<open>new Date().toISOString()\<close>,
    \<open>random36\<close> is \<open>Math.random().toString(36).substring(2, 9)\<close>;
  \<^item> \<open>ulidAt n\<close> is what the call of \<open>ulid()\<close> returns after \<open>n\<close> earlier calls;
  \<^item> \<open>removeUndefinedValues\<close> is the marshalling option of that name of the document
    client, which \<open>infrastructure/clients/dynamodb-client\<close> configures;
  \<^item> \<open>getOrigin\<close> is the origin selection of the CORS middleware: from the request's
    \<open>Origin\<close> header and the configured origins to the value of the
    \<open>Access-Control-Allow-Origin\<close> header, or to none, and then the header is not written;
  \<^item> \<open>fallback500\<close> tells whether the HTTP error handler answers an error that has no
    status code with a 500 response, or leaves it without a response.
\<close>

record host =
  ENVIRONMENT :: "string option"
  dateNow :: int
  isoNow :: string
  random36 :: string
  ulidAt :: "nat \<Rightarrow> string"
  removeUndefinedValues :: bool
  getOrigin :: "string option \<Rightarrow> string list \<Rightarrow> string option"
  fallback500 :: bool

definition environment :: "host \<Rightarrow> string" where
  "environment h = (case ENVIRONMENT h of None \<Rightarrow> ''dev'' | Some s \<Rightarrow> if s = [] then ''dev'' else s)"

definition isDevEnvironment :: "host \<Rightarrow> bool" where
  "isDevEnvironment h = (environment h = ''dev'')"

section \<open>Events, responses and the world\<close>

text \<open>
  The event carries the fields the code reads: \<open>claimsSub\<close> is
  \<open>event.requestContext?.authorizer?.claims?.sub\<close>, \<open>requestId\<close> is
  \<open>event.requestContext?.requestId\<close>. The event is taken as the JSON body parser hands
  it on: \<open>evBody\<close> is the parsed value, the text itself (\<open>JStr\<close>) when the content type is
  not JSON, \<open>JNull\<close> when there is no body. A request whose text that parser refuses does
  not reach the repository's own hooks and is not part of this development.
\<close>

record event =
  evHeaders :: "string \<rightharpoonup> string"
  requestId :: "string option"
  claimsSub :: "string option"
  evBody :: jv
  pathParameters :: jv
  queryStringParameters :: jv

text \<open>The body of a response is the value \<open>JSON.stringify\<close> is applied to.\<close>

datatype payload =
    NoBody
  | ErrorBody string string "issue list option"
  | AxiomBody Axiom "string option"
  | ListBody "Axiom list" nat nat nat

record APIGatewayProxyResult =
  statusCode :: nat
  headers :: "string \<rightharpoonup> string"
  body :: payload

text \<open>
  The world: the axioms table (at most one item per key), the messages the logger
  wrote, in order, and the number of identifiers \<open>ulid()\<close> has handed out. The fields of a
  log entry, the tracer's annotations and the metrics are not part of it.
\<close>

record world =
  table :: "Axiom list"
  logged :: "string list"
  drawn :: nat

definition logger :: "string \<Rightarrow> world \<Rightarrow> world" where
  "logger m w = w\<lparr>logged := logged w @ [m]\<rparr>"

section \<open>CORS headers and response helpers (lambdas/shared/middleware)\<close>

definition getCorsHeaders :: "host \<Rightarrow> (string \<rightharpoonup> string)" where
  "getCorsHeaders h =
     [''Access-Control-Allow-Origin'' \<mapsto> (if isDevEnvironment h then ''http://localhost:3000'' else ''*''),
      ''Access-Control-Allow-Credentials'' \<mapsto> ''true'',
      ''Access-Control-Allow-Headers'' \<mapsto> ''Content-Type,Authorization,X-Amz-Date,X-Api-Key,X-Amz-Security-Token'',
      ''Access-Control-Allow-Methods'' \<mapsto> ''GET,POST,PUT,PATCH,DELETE,OPTIONS'']"

text \<open>
  The helpers the handlers call. \<open>success\<close> is always called with its default status, and
  \<open>success\<close>, \<open>created\<close> and \<open>noContent\<close> set no headers.
\<close>

definition success :: "payload \<Rightarrow> APIGatewayProxyResult" where
  "success d = \<lparr>statusCode = 200, headers = Map.empty, body = d\<rparr>"

definition created :: "payload \<Rightarrow> APIGatewayProxyResult" where
  "created d = \<lparr>statusCode = 201, headers = Map.empty, body = d\<rparr>"

definition noContent :: APIGatewayProxyResult where
  "noContent = \<lparr>statusCode = 204, headers = Map.empty, body = NoBody\<rparr>"

definition unauthorized :: "host \<Rightarrow> string \<Rightarrow> APIGatewayProxyResult" where
  "unauthorized h m =
     \<lparr>statusCode = 401, headers = getCorsHeaders h, body = ErrorBody ''Unauthorized'' m None\<rparr>"

definition forbidden :: "host \<Rightarrow> string \<Rightarrow> APIGatewayProxyResult" where
  "forbidden h m =
     \<lparr>statusCode = 403, headers = getCorsHeaders h, body = ErrorBody ''Forbidden'' m None\<rparr>"

definition notFound :: "host \<Rightarrow> string \<Rightarrow> APIGatewayProxyResult" where
  "notFound h m =
     \<lparr>statusCode = 404, headers = getCorsHeaders h, body = ErrorBody ''Not Found'' m None\<rparr>"

section \<open>Identity (getUserId)\<close>

definition getUserId :: "event \<Rightarrow> err + string" where
  "getUserId e =
     (case claimsSub e of
        None \<Rightarrow> Inl (Error ''User ID not found in claims'')
      | Some u \<Rightarrow> if u = [] then Inl (Error ''User ID not found in claims'') else Inr u)"

section \<open>The repository (DynamoAxiomRepository)\<close>

text \<open>
  The table is the list of its items. A query on the partition key answers in the order
  of the sort key \<open>axiomId\<close>; the query on the index of the default records answers in the
  order of the index's sort key \<open>sortOrder\<close>, and the store does not say in which order
  it answers records of equal \<open>sortOrder\<close> (here: the order of the table). The default
  records are the items the index lists under \<open>isDefault = 'true'\<close>. One page of results
  is modelled.
\<close>

definition findByUserId :: "string \<Rightarrow> Axiom list \<Rightarrow> Axiom list" where
  "findByUserId uid t = sort_key axiomId (filter (\<lambda>a. userId a = uid) t)"

definition findById :: "string \<Rightarrow> string \<Rightarrow> Axiom list \<Rightarrow> Axiom option" where
  "findById uid aid t = find (\<lambda>a. userId a = uid \<and> axiomId a = aid) t"

definition findDefaults :: "Axiom list \<Rightarrow> Axiom list" where
  "findDefaults t = sort_key sortOrder (filter isDefault t)"

text \<open>
  The document client turns the values of a command into attributes before it sends the
  command (\<open>marshall\<close>): a value that is \<open>undefined\<close> is left out or refused, as its option
  \<open>removeUndefinedValues\<close> says, and a number outside the safe integers is refused. The
  fields are converted in their order, and the first refusal is the error thrown.
\<close>

datatype attr = S string | BOOL bool | N int

definition MAX_SAFE_INTEGER :: int where
  "MAX_SAFE_INTEGER = 9007199254740991"

fun convertToAttr :: "host \<Rightarrow> attr option \<Rightarrow> err + attr option" where
  "convertToAttr h None =
     (if removeUndefinedValues h then Inr None
      else Inl (Error ''Pass options.removeUndefinedValues=true to remove undefined values from map/array/set.''))"
| "convertToAttr h (Some (N n)) =
     (if n > MAX_SAFE_INTEGER
      then Inl (Error (''Number '' @ decimal n @ '' is greater than Number.MAX_SAFE_INTEGER. Use BigInt.''))
      else if n < - MAX_SAFE_INTEGER
      then Inl (Error (''Number -'' @ decimal (- n) @ '' is lesser than Number.MIN_SAFE_INTEGER. Use BigInt.''))
      else Inr (Some (N n)))"
| "convertToAttr h (Some v) = Inr (Some v)"

fun marshall :: "host \<Rightarrow> (string \<times> attr option) list \<Rightarrow> err + (string \<times> attr) list" where
  "marshall h [] = Inr []"
| "marshall h ((k, v) # kvs) =
     (case convertToAttr h v of
        Inl x \<Rightarrow> Inl x
      | Inr v' \<Rightarrow>
          (case marshall h kvs of
             Inl x \<Rightarrow> Inl x
           | Inr item \<Rightarrow> Inr (case v' of None \<Rightarrow> item | Some a \<Rightarrow> (k, a) # item)))"

text \<open>
  The key attributes of the index \<open>default-axioms-index\<close> of the axioms table, with the
  types the table is declared with (\<open>lib/stacks/database-stack\<close>): the partition key
  \<open>isDefault\<close> is a string, the sort key \<open>sortOrder\<close> a number. The store refuses an item
  that holds one of them with a value of another type. (The table's own key, \<open>userId\<close> and
  \<open>axiomId\<close>, is a pair of strings, as in every \<open>Axiom\<close>.)
\<close>

datatype AttributeType = STRING | NUMBER

definition default_axioms_index :: "(string \<times> AttributeType) list" where
  "default_axioms_index = [(''isDefault'', STRING), (''sortOrder'', NUMBER)]"

fun typeCode :: "attr \<Rightarrow> string" where
  "typeCode (S v) = ''S''"
| "typeCode (BOOL v) = ''BOOL''"
| "typeCode (N v) = ''N''"

fun expectedCode :: "AttributeType \<Rightarrow> string" where
  "expectedCode STRING = ''S''"
| "expectedCode NUMBER = ''N''"

definition keyMismatch :: "(string \<times> attr) list \<Rightarrow> (string \<times> AttributeType) option" where
  "keyMismatch item =
     find (\<lambda>(k, ty). case map_of item k of None \<Rightarrow> False | Some v \<Rightarrow> typeCode v \<noteq> expectedCode ty)
       default_axioms_index"

text \<open>
  \<open>PutCommand\<close> with an \<open>Axiom\<close> object for the item: the object's fields are marshalled,
  the boolean \<open>isDefault\<close> as a boolean attribute; an item the store accepts replaces the
  one stored under its key.
\<close>

definition itemOf :: "Axiom \<Rightarrow> (string \<times> attr option) list" where
  "itemOf a =
     [(''userId'', Some (S (userId a))),
      (''axiomId'', Some (S (axiomId a))),
      (''name'', map_option S (name a)),
      (''description'', map_option S (description a)),
      (''isDefault'', Some (BOOL (isDefault a))),
      (''isActive'', Some (BOOL (isActive a))),
      (''sortOrder'', Some (N (sortOrder a))),
      (''createdAt'', Some (S (createdAt a))),
      (''updatedAt'', Some (S (updatedAt a)))]"

definition putItem :: "host \<Rightarrow> Axiom \<Rightarrow> Axiom list \<Rightarrow> err + Axiom list" where
  "putItem h a t =
     (case marshall h (itemOf a) of
        Inl x \<Rightarrow> Inl x
      | Inr item \<Rightarrow>
          (case keyMismatch item of
             Some (k, ty) \<Rightarrow>
               Inl (Error (''ValidationException: One or more parameter values were invalid: ''
                 @ ''Type mismatch for Index Key '' @ k @ '' Expected: '' @ expectedCode ty
                 @ '' Actual: '' @ (case map_of item k of None \<Rightarrow> [] | Some v \<Rightarrow> typeCode v)
                 @ '' IndexName: default-axioms-index''))
           | None \<Rightarrow> Inr (a # filter (\<lambda>b. \<not> (userId b = userId a \<and> axiomId b = axiomId a)) t)))"

text \<open>
  \<open>create\<close>: the clock is read, an identifier is drawn, the object is built and put; the
  object is returned when the put went through.
\<close>

definition create :: "host \<Rightarrow> string \<Rightarrow> CreateAxiomInput \<Rightarrow> world \<Rightarrow> (err + Axiom) \<times> world" where
  "create h uid inp w =
     (let now = isoNow h;
          w1 = w\<lparr>drawn := Suc (drawn w)\<rparr>;
          axiom = \<lparr>userId = uid,
                   axiomId = ulidAt h (drawn w),
                   name = in_name inp,
                   description = in_description inp,
                   isDefault = False,
                   isActive = (case in_isActive inp of None \<Rightarrow> True | Some b \<Rightarrow> b),
                   sortOrder = (case in_sortOrder inp of None \<Rightarrow> 0 | Some n \<Rightarrow> n),
                   createdAt = now,
                   updatedAt = now\<rparr>
      in case putItem h axiom (table w1) of
           Inl x \<Rightarrow> (Inl x, w1)
         | Inr t' \<Rightarrow> (Inr axiom, w1\<lparr>table := t'\<rparr>))"

text \<open>
  \<open>update\<close> collects one assignment per field of the input that is not \<open>undefined\<close>, after
  the one of \<open>updatedAt\<close>; the values are marshalled, and the store then sets the named
  attributes of the item, in order.
\<close>

definition updateExpressions :: "host \<Rightarrow> UpdateAxiomInput \<Rightarrow> (string \<times> attr) list" where
  "updateExpressions h inp =
     [(''updatedAt'', S (isoNow h))]
     @ (case up_name inp of None \<Rightarrow> [] | Some v \<Rightarrow> [(''name'', S v)])
     @ (case up_description inp of None \<Rightarrow> [] | Some v \<Rightarrow> [(''description'', S v)])
     @ (case up_isActive inp of None \<Rightarrow> [] | Some v \<Rightarrow> [(''isActive'', BOOL v)])
     @ (case up_sortOrder inp of None \<Rightarrow> [] | Some v \<Rightarrow> [(''sortOrder'', N v)])"

fun setAttr :: "Axiom \<Rightarrow> string \<times> attr \<Rightarrow> Axiom" where
  "setAttr a (k, S v) =
     (if k = ''updatedAt'' then a\<lparr>updatedAt := v\<rparr>
      else if k = ''name'' then a\<lparr>name := Some v\<rparr>
      else if k = ''description'' then a\<lparr>description := Some v\<rparr>
      else a)"
| "setAttr a (k, BOOL v) = (if k = ''isActive'' then a\<lparr>isActive := v\<rparr> else a)"
| "setAttr a (k, N v) = (if k = ''sortOrder'' then a\<lparr>sortOrder := v\<rparr> else a)"

text \<open>
  \<open>UpdateCommand\<close> with \<open>ReturnValues: ALL_NEW\<close>: the item under the key gets the
  assignments and is returned. Under a key that holds no item the store would create an
  item of the key and the assigned attributes alone, which is no \<open>Axiom\<close>; the model
  answers \<open>None\<close> there and the handlers never ask for it (they look the item up first).
\<close>

definition update ::
  "host \<Rightarrow> string \<Rightarrow> string \<Rightarrow> UpdateAxiomInput \<Rightarrow> Axiom list \<Rightarrow> err + (Axiom option \<times> Axiom list)" where
  "update h uid aid inp t =
     (case marshall h (map (\<lambda>(k, v). (k, Some v)) (updateExpressions h inp)) of
        Inl x \<Rightarrow> Inl x
      | Inr values \<Rightarrow>
          (let t' = map (\<lambda>a. if userId a = uid \<and> axiomId a = aid
                              then foldl setAttr a values else a) t
           in Inr (findById uid aid t', t')))"

text \<open>\<open>DeleteCommand\<close>; the method is \<open>delete\<close> in the source.\<close>

definition deleteItem :: "string \<Rightarrow> string \<Rightarrow> Axiom list \<Rightarrow> Axiom list" where
  "deleteItem uid aid t = filter (\<lambda>a. \<not> (userId a = uid \<and> axiomId a = aid)) t"

section \<open>The handlers (lambdas/axioms)\<close>

text \<open>
  The handlers receive \<open>event.body\<close> and \<open>event.pathParameters\<close> under a type the
  validator is trusted to have established. The casts below read the value the way the
  repository's code does (\<open>??\<close> takes \<open>null\<close> and \<open>undefined\<close> for absent, \<open>!== undefined\<close>
  only \<open>undefined\<close>). Reading a property of \<open>null\<close> throws; a body that is a primitive has
  none of the properties, and every field read from it is \<open>undefined\<close>. A field that holds
  a value of another type than the declared one does not reach a handler through the
  exported entry points (\<open>validated_body_is_typed\<close> and \<open>validated_update_is_typed\<close>
  below); the typed model has no such record, and the cast ends in \<open>clientError\<close> there.
  An identifier that is no string, or an empty one, is no key of the table: the lookup
  throws.
\<close>

definition clientError :: err where
  "clientError = Error ''ValidationException''"

fun asKey :: "jv \<Rightarrow> err + string" where
  "asKey (JStr s) = (if s = [] then Inl clientError else Inr s)"
| "asKey v = Inl clientError"

fun nullishBool :: "jv \<Rightarrow> (bool option) option" where
  "nullishBool JUndef = Some None"
| "nullishBool JNull = Some None"
| "nullishBool (JBool b) = Some (Some b)"
| "nullishBool v = None"

fun nullishInt :: "jv \<Rightarrow> (int option) option" where
  "nullishInt JUndef = Some None"
| "nullishInt JNull = Some None"
| "nullishInt (JNum n) = Some (Some n)"
| "nullishInt v = None"

fun optionalStr :: "jv \<Rightarrow> (string option) option" where
  "optionalStr JUndef = Some None"
| "optionalStr (JStr s) = Some (Some s)"
| "optionalStr v = None"

fun optionalBool :: "jv \<Rightarrow> (bool option) option" where
  "optionalBool JUndef = Some None"
| "optionalBool (JBool b) = Some (Some b)"
| "optionalBool v = None"

fun optionalInt :: "jv \<Rightarrow> (int option) option" where
  "optionalInt JUndef = Some None"
| "optionalInt (JNum n) = Some (Some n)"
| "optionalInt v = None"

definition asCreateAxiomInput :: "jv \<Rightarrow> err + CreateAxiomInput" where
  "asCreateAxiomInput v =
     (case (getProp v ''name'', getProp v ''description'',
            getProp v ''isActive'', getProp v ''sortOrder'') of
        (Inr n, Inr d, Inr a, Inr s) \<Rightarrow>
          (case (optionalStr n, optionalStr d, nullishBool a, nullishInt s) of
             (Some n', Some d', Some a', Some s') \<Rightarrow>
               Inr \<lparr>in_name = n', in_description = d', in_isActive = a', in_sortOrder = s'\<rparr>
           | _ \<Rightarrow> Inl clientError)
      | (Inl x, _) \<Rightarrow> Inl x
      | _ \<Rightarrow> Inl clientError)"

definition asUpdateAxiomInput :: "jv \<Rightarrow> err + UpdateAxiomInput" where
  "asUpdateAxiomInput v =
     (case (getProp v ''name'', getProp v ''description'',
            getProp v ''isActive'', getProp v ''sortOrder'') of
        (Inr n, Inr d, Inr a, Inr s) \<Rightarrow>
          (case (optionalStr n, optionalStr d, optionalBool a, optionalInt s) of
             (Some n', Some d', Some a', Some s') \<Rightarrow>
               Inr \<lparr>up_name = n', up_description = d', up_isActive = a', up_sortOrder = s'\<rparr>
           | _ \<Rightarrow> Inl clientError)
      | (Inl x, _) \<Rightarrow> Inl x
      | _ \<Rightarrow> Inl clientError)"

text \<open>
  A handler takes the event and the world and returns a response or throws. The Lambda
  context, its second argument in the source, is read by no handler and is left out.
\<close>

type_synonym handler = "event \<Rightarrow> world \<Rightarrow> (err + APIGatewayProxyResult) \<times> world"

definition list_handler :: "host \<Rightarrow> handler" where
  "list_handler h e w =
     (case getUserId e of
        Inl x \<Rightarrow> (Inl x, w)
      | Inr uid \<Rightarrow>
          (let w1 = logger ''Listing axioms for user'' w;
               userAxioms = findByUserId uid (table w1);
               defaultAxioms = findDefaults (table w1);
               allAxioms = sort_key sortOrder (defaultAxioms @ userAxioms)
           in (Inr (success (ListBody allAxioms (length allAxioms) (length userAxioms)
                      (length defaultAxioms))), w1)))"

definition get_handler :: "host \<Rightarrow> handler" where
  "get_handler h e w =
     (case getUserId e of
        Inl x \<Rightarrow> (Inl x, w)
      | Inr uid \<Rightarrow>
          (case getProp (pathParameters e) ''axiomId'' of
             Inl x \<Rightarrow> (Inl x, w)
           | Inr v \<Rightarrow>
               (let w1 = logger ''Getting axiom'' w in
                case asKey v of
                  Inl x \<Rightarrow> (Inl x, w1)
                | Inr aid \<Rightarrow>
                    (case findById uid aid (table w1) of
                       None \<Rightarrow> (Inr (notFound h ''Axiom not found''), w1)
                     | Some axiom \<Rightarrow> (Inr (success (AxiomBody axiom None)), w1)))))"

definition create_handler :: "host \<Rightarrow> handler" where
  "create_handler h e w =
     (case getUserId e of
        Inl x \<Rightarrow> (Inl x, w)
      | Inr uid \<Rightarrow>
          (case getProp (evBody e) ''name'' of
             Inl x \<Rightarrow> (Inl x, w)
           | Inr _ \<Rightarrow>
               (let w1 = logger ''Creating axiom'' w in
                case asCreateAxiomInput (evBody e) of
                  Inl x \<Rightarrow> (Inl x, w1)
                | Inr inp \<Rightarrow>
                    (case create h uid inp w1 of
                       (Inl x, w2) \<Rightarrow> (Inl x, w2)
                     | (Inr axiom, w2) \<Rightarrow>
                         (Inr (created (AxiomBody axiom (Some ''Axiom created successfully''))),
                          w2)))))"

definition update_handler :: "host \<Rightarrow> handler" where
  "update_handler h e w =
     (case getUserId e of
        Inl x \<Rightarrow> (Inl x, w)
      | Inr uid \<Rightarrow>
          (case getProp (pathParameters e) ''axiomId'' of
             Inl x \<Rightarrow> (Inl x, w)
           | Inr v \<Rightarrow>
               (let w1 = logger ''Updating axiom'' w in
                case asKey v of
                  Inl x \<Rightarrow> (Inl x, w1)
                | Inr aid \<Rightarrow>
                    (case findById uid aid (table w1) of
                       None \<Rightarrow> (Inr (notFound h ''Axiom not found''), w1)
                     | Some existing \<Rightarrow>
                         if isDefault existing
                         then (Inr (forbidden h ''Cannot update default axioms''), w1)
                         else
                           (case asUpdateAxiomInput (evBody e) of
                              Inl x \<Rightarrow> (Inl x, w1)
                            | Inr inp \<Rightarrow>
                                (case update h uid aid inp (table w1) of
                                   Inl x \<Rightarrow> (Inl x, w1)
                                 | Inr (None, t') \<Rightarrow> (Inl clientError, w1\<lparr>table := t'\<rparr>)
                                 | Inr (Some axiom, t') \<Rightarrow>
                                     (Inr (success (AxiomBody axiom
                                             (Some ''Axiom updated successfully''))),
                                      w1\<lparr>table := t'\<rparr>)))))))"

definition delete_handler :: "host \<Rightarrow> handler" where
  "delete_handler h e w =
     (case getUserId e of
        Inl x \<Rightarrow> (Inl x, w)
      | Inr uid \<Rightarrow>
          (case getProp (pathParameters e) ''axiomId'' of
             Inl x \<Rightarrow> (Inl x, w)
           | Inr v \<Rightarrow>
               (let w1 = logger ''Deleting axiom'' w in
                case asKey v of
                  Inl x \<Rightarrow> (Inl x, w1)
                | Inr aid \<Rightarrow>
                    (case findById uid aid (table w1) of
                       None \<Rightarrow> (Inr (notFound h ''Axiom not found''), w1)
                     | Some existing \<Rightarrow>
                         if isDefault existing
                         then (Inr (forbidden h ''Cannot delete default axioms''), w1)
                         else (Inr noContent, w1\<lparr>table := deleteItem uid aid (table w1)\<rparr>)))))"

section \<open>The middleware engine\<close>

text \<open>
  The engine is the middy library's (release 5, by the repository's README), not the
  repository's; it is modelled from the library's contract, which the repository's
  middlewares are written against:
  \<^item> a hook returns nothing (\<open>Next\<close>), returns a value (\<open>Return\<close>) or throws (\<open>Throw\<close>); it may
    change the request, and the change stays when it throws;
  \<^item> \<open>use\<close> appends the \<open>before\<close> hook and prepends the \<open>after\<close> and \<open>onError\<close> hooks, so
    these two run in the reverse order of registration;
  \<^item> a hook that returns a value ends its phase, and the value is the response; when that
    happens in the \<open>before\<close> phase, neither the handler nor the \<open>after\<close> phase runs;
  \<^item> an error thrown by a \<open>before\<close> hook, the handler or an \<open>after\<close> hook clears the
    response and starts the \<open>onError\<close> phase; when that phase leaves no response, or throws,
    the invocation is rejected with the error.
\<close>

record ctx =
  correlationId :: "string option"
  startTime :: "int option"

record request =
  event :: event
  lambdaContext :: ctx
  response :: "APIGatewayProxyResult option"
  error :: "err option"

datatype step = Next | Return APIGatewayProxyResult | Throw err

type_synonym hook = "request \<Rightarrow> world \<Rightarrow> step \<times> request \<times> world"

record middleware =
  m_before :: "hook option"
  m_after :: "hook option"
  m_onError :: "hook option"

datatype flow = Completed | Early | Failed err

fun runMiddlewares :: "hook list \<Rightarrow> request \<Rightarrow> world \<Rightarrow> flow \<times> request \<times> world" where
  "runMiddlewares [] r w = (Completed, r, w)"
| "runMiddlewares (m # ms) r w =
     (case m r w of
        (Throw x, r', w') \<Rightarrow> (Failed x, r', w')
      | (Return res, r', w') \<Rightarrow> (Early, r'\<lparr>response := Some res\<rparr>, w')
      | (Next, r', w') \<Rightarrow> runMiddlewares ms r' w')"

datatype outcome = Returned "APIGatewayProxyResult option" | Rejected err

definition runOnError :: "hook list \<Rightarrow> err \<Rightarrow> request \<Rightarrow> world \<Rightarrow> outcome \<times> world" where
  "runOnError onErrors x r w =
     (case runMiddlewares onErrors (r\<lparr>response := None, error := Some x\<rparr>) w of
        (Failed x', r', w') \<Rightarrow> (Rejected x', w')
      | (_, r', w') \<Rightarrow>
          (case response r' of
             None \<Rightarrow> (Rejected x, w')
           | Some res \<Rightarrow> (Returned (Some res), w')))"

definition runRequest ::
  "hook list \<Rightarrow> handler \<Rightarrow> hook list \<Rightarrow> hook list \<Rightarrow> request \<Rightarrow> world \<Rightarrow> outcome \<times> world" where
  "runRequest befores lambdaHandler afters onErrors r w =
     (case runMiddlewares befores r w of
        (Failed x, r1, w1) \<Rightarrow> runOnError onErrors x r1 w1
      | (Early, r1, w1) \<Rightarrow> (Returned (response r1), w1)
      | (Completed, r1, w1) \<Rightarrow>
          (case lambdaHandler (event r1) w1 of
             (Inl x, w2) \<Rightarrow> runOnError onErrors x r1 w2
           | (Inr res, w2) \<Rightarrow>
               (case runMiddlewares afters (r1\<lparr>response := Some res\<rparr>) w2 of
                  (Failed x, r3, w3) \<Rightarrow> runOnError onErrors x r3 w3
                | (_, r3, w3) \<Rightarrow> (Returned (response r3), w3))))"

definition middy :: "handler \<Rightarrow> middleware list \<Rightarrow> event \<Rightarrow> world \<Rightarrow> outcome \<times> world" where
  "middy lambdaHandler ms e w =
     runRequest (List.map_filter m_before ms) lambdaHandler
       (rev (List.map_filter m_after ms)) (rev (List.map_filter m_onError ms))
       \<lparr>event = e, lambdaContext = \<lparr>correlationId = None, startTime = None\<rparr>,
        response = None, error = None\<rparr> w"

section \<open>The library middlewares\<close>

text \<open>
  Tracing, logger context and metrics have the three hooks and touch neither the event
  nor the response. The JSON body parser has done its work on the event (see above).
\<close>

definition pass :: hook where
  "pass r w = (Next, r, w)"

definition captureLambdaHandler :: middleware where
  "captureLambdaHandler = \<lparr>m_before = Some pass, m_after = Some pass, m_onError = Some pass\<rparr>"

definition injectLambdaContext :: middleware where
  "injectLambdaContext = \<lparr>m_before = Some pass, m_after = Some pass, m_onError = Some pass\<rparr>"

definition logMetrics :: middleware where
  "logMetrics = \<lparr>m_before = Some pass, m_after = Some pass, m_onError = Some pass\<rparr>"

definition httpJsonBodyParser :: middleware where
  "httpJsonBodyParser = \<lparr>m_before = Some pass, m_after = None, m_onError = None\<rparr>"

text \<open>
  The CORS middleware, configured with \<open>credentials: true\<close>, the \<open>headers\<close> list and the
  origins, writes its headers into the response in the \<open>after\<close> and \<open>onError\<close> phases, each
  one only where the response does not have it yet, and
  \<open>Access-Control-Allow-Origin\<close> only when its origin selection gives a value for the
  request's origin (\<open>headers.Origin ?? headers.origin\<close>).
\<close>

definition addHeader :: "string \<Rightarrow> string \<Rightarrow> (string \<rightharpoonup> string) \<Rightarrow> (string \<rightharpoonup> string)" where
  "addHeader k v hs = (if hs k = None then hs(k \<mapsto> v) else hs)"

definition incomingOrigin :: "event \<Rightarrow> string option" where
  "incomingOrigin e = (case evHeaders e ''Origin'' of None \<Rightarrow> evHeaders e ''origin'' | Some v \<Rightarrow> Some v)"

definition allowOrigin :: "string option \<Rightarrow> (string \<rightharpoonup> string) \<Rightarrow> (string \<rightharpoonup> string)" where
  "allowOrigin newOrigin hs =
     (case newOrigin of
        None \<Rightarrow> hs
      | Some v \<Rightarrow> addHeader ''Access-Control-Allow-Origin'' v hs)"

definition corsHeaders :: "host \<Rightarrow> string list \<Rightarrow> event \<Rightarrow> (string \<rightharpoonup> string) \<Rightarrow> (string \<rightharpoonup> string)" where
  "corsHeaders h origins e hs =
     addHeader ''Access-Control-Allow-Headers''
       ''Content-Type,Authorization,X-Amz-Date,X-Api-Key,X-Amz-Security-Token''
       (allowOrigin (getOrigin h (incomingOrigin e) origins)
          (addHeader ''Access-Control-Allow-Credentials'' ''true'' hs))"

definition httpCors_write :: "host \<Rightarrow> string list \<Rightarrow> hook" where
  "httpCors_write h origins r w =
     (case response r of
        None \<Rightarrow> (Next, r, w)
      | Some res \<Rightarrow>
          (Next, r\<lparr>response := Some (res\<lparr>headers := corsHeaders h origins (event r) (headers res)\<rparr>)\<rparr>, w))"

definition httpCors :: "host \<Rightarrow> string list \<Rightarrow> middleware" where
  "httpCors h origins =
     \<lparr>m_before = Some pass, m_after = Some (httpCors_write h origins),
      m_onError = Some (httpCors_write h origins)\<rparr>"

text \<open>
  The HTTP error handler, given the \<open>logger\<close> callback of \<open>withMiddleware\<close>: it leaves a
  response that is there alone, and else calls the callback. It turns an error that has a
  status code into a response of that status; the errors of this development have none,
  and no fallback message is configured, so they are answered as \<open>fallback500\<close> says: by a
  500 response without a body, or not at all.
\<close>

definition httpErrorHandler_onError :: "host \<Rightarrow> hook" where
  "httpErrorHandler_onError h r w =
     (case response r of
        Some res \<Rightarrow> (Next, r, w)
      | None \<Rightarrow>
          (let w1 = logger ''Unhandled error'' w in
           if fallback500 h
           then (Next, r\<lparr>response := Some \<lparr>statusCode = 500, headers = Map.empty, body = NoBody\<rparr>\<rparr>, w1)
           else (Next, r, w1)))"

definition httpErrorHandler :: "host \<Rightarrow> middleware" where
  "httpErrorHandler h = \<lparr>m_before = None, m_after = None, m_onError = Some (httpErrorHandler_onError h)\<rparr>"

section \<open>The repository's middlewares (lambdas/shared/middleware)\<close>

type_synonym ZodSchema = "jv \<Rightarrow> err + jv"

record MiddlewareOptions =
  bodySchema :: "ZodSchema option"
  pathSchema :: "ZodSchema option"
  querySchema :: "ZodSchema option"
  corsOrigins :: "string list option"

text \<open>One \<open>if (schema && value) value = schema.parse(value)\<close> of the validator.\<close>

definition parseIfPresent :: "ZodSchema option \<Rightarrow> jv \<Rightarrow> err + jv" where
  "parseIfPresent sch v =
     (case sch of
        None \<Rightarrow> Inr v
      | Some s \<Rightarrow> if truthy v then s v else Inr v)"

text \<open>The \<open>try\<close> block: body, then path, then query; what was parsed before a throw stays.\<close>

definition zodValidator_try :: "MiddlewareOptions \<Rightarrow> event \<Rightarrow> err option \<times> event" where
  "zodValidator_try options e =
     (case parseIfPresent (bodySchema options) (evBody e) of
        Inl x \<Rightarrow> (Some x, e)
      | Inr b \<Rightarrow>
          (let e1 = e\<lparr>evBody := b\<rparr> in
           case parseIfPresent (pathSchema options) (pathParameters e1) of
             Inl x \<Rightarrow> (Some x, e1)
           | Inr p \<Rightarrow>
               (let e2 = e1\<lparr>pathParameters := p\<rparr> in
                case parseIfPresent (querySchema options) (queryStringParameters e2) of
                  Inl x \<Rightarrow> (Some x, e2)
                | Inr q \<Rightarrow> (None, e2\<lparr>queryStringParameters := q\<rparr>))))"

definition zodValidator_before :: "host \<Rightarrow> MiddlewareOptions \<Rightarrow> hook" where
  "zodValidator_before h options r w =
     (case zodValidator_try options (event r) of
        (None, e') \<Rightarrow> (Next, r\<lparr>event := e'\<rparr>, w)
      | (Some (ZodError errors), e') \<Rightarrow>
          (Return \<lparr>statusCode = 400, headers = getCorsHeaders h,
                   body = ErrorBody ''Validation Error'' ''Invalid request data'' (Some errors)\<rparr>,
           r\<lparr>event := e'\<rparr>, logger ''Request validation failed'' w)
      | (Some x, e') \<Rightarrow> (Throw x, r\<lparr>event := e'\<rparr>, w))"

definition zodValidator :: "host \<Rightarrow> MiddlewareOptions \<Rightarrow> middleware" where
  "zodValidator h options =
     \<lparr>m_before = Some (zodValidator_before h options), m_after = None, m_onError = None\<rparr>"

text \<open>\<open>a || b\<close> on header values: the first that is a non-empty string.\<close>

definition orElse :: "string option \<Rightarrow> string \<Rightarrow> string" where
  "orElse a b = (case a of None \<Rightarrow> b | Some s \<Rightarrow> if s = [] then b else s)"

definition resolveCorrelationId :: "host \<Rightarrow> event \<Rightarrow> string" where
  "resolveCorrelationId h e =
     orElse (evHeaders e ''X-Correlation-Id'')
       (orElse (evHeaders e ''x-correlation-id'')
          (orElse (requestId e) (decimal (dateNow h) @ ''-'' @ random36 h)))"

definition requestLogger_before :: "host \<Rightarrow> hook" where
  "requestLogger_before h r w =
     (let cid = resolveCorrelationId h (event r)
      in (Next,
          r\<lparr>lambdaContext := \<lparr>correlationId = Some cid, startTime = Some (dateNow h)\<rparr>\<rparr>,
          logger ''Request received'' w))"

definition requestLogger_after :: hook where
  "requestLogger_after r w =
     (let r' = (case (response r, correlationId (lambdaContext r)) of
                  (Some res, Some cid) \<Rightarrow>
                    if cid \<noteq> []
                    then r\<lparr>response := Some (res\<lparr>headers := (headers res)(''X-Correlation-Id'' \<mapsto> cid)\<rparr>)\<rparr>
                    else r
                | _ \<Rightarrow> r)
      in (Next, r', logger ''Request completed'' w))"

definition requestLogger_onError :: hook where
  "requestLogger_onError r w = (Next, r, logger ''Request failed'' w)"

definition requestLogger :: "host \<Rightarrow> middleware" where
  "requestLogger h =
     \<lparr>m_before = Some (requestLogger_before h), m_after = Some requestLogger_after,
      m_onError = Some requestLogger_onError\<rparr>"

definition defaultOrigins :: "host \<Rightarrow> string list" where
  "defaultOrigins h =
     (if isDevEnvironment h then [''http://localhost:3000'', ''http://localhost:3001''] else [''*''])"

text \<open>\<open>options.corsOrigins || defaultOrigins\<close>: an array, also an empty one, is truthy.\<close>

definition chosenOrigins :: "host \<Rightarrow> MiddlewareOptions \<Rightarrow> string list" where
  "chosenOrigins h options = (case corsOrigins options of None \<Rightarrow> defaultOrigins h | Some os \<Rightarrow> os)"

definition withMiddleware ::
  "host \<Rightarrow> handler \<Rightarrow> MiddlewareOptions \<Rightarrow> event \<Rightarrow> world \<Rightarrow> outcome \<times> world" where
  "withMiddleware h lambdaHandler options =
     middy lambdaHandler
       [captureLambdaHandler, injectLambdaContext, logMetrics, httpJsonBodyParser,
        httpCors h (chosenOrigins h options), requestLogger h, zodValidator h options,
        httpErrorHandler h]"

section \<open>The declared schemas\<close>

text \<open>
  The schemas are built with the zod library. Its \<open>object\<close> parser is modelled from the
  library's contract for the shapes the handlers declare: a value that is no object is
  one issue at the root; an object gets the issues of its fields in the order of the
  shape, each under the field's name, and when there are none the parsed object holds
  the declared fields that are present.
\<close>

fun typeName :: "jv \<Rightarrow> string" where
  "typeName JUndef = ''undefined''"
| "typeName JNull = ''null''"
| "typeName (JBool b) = ''boolean''"
| "typeName (JNum n) = ''number''"
| "typeName (JStr s) = ''string''"
| "typeName (JArr xs) = ''array''"
| "typeName (JObj kvs) = ''object''"

definition invalidType :: "string \<Rightarrow> jv \<Rightarrow> string" where
  "invalidType expected v =
     (if v = JUndef then ''Required'' else ''Expected '' @ expected @ '', received '' @ typeName v)"

datatype zfield = ZString nat "nat option" | ZBoolean | ZIntMin nat

fun checkField :: "zfield \<Rightarrow> jv \<Rightarrow> string list" where
  "checkField (ZString lo hi) (JStr s) =
     (if length s < lo
      then [''String must contain at least '' @ decimal (int lo) @ '' character(s)''] else [])
     @ (case hi of
          None \<Rightarrow> []
        | Some m \<Rightarrow>
            if m < length s
            then [''String must contain at most '' @ decimal (int m) @ '' character(s)''] else [])"
| "checkField (ZString lo hi) v = [invalidType ''string'' v]"
| "checkField ZBoolean (JBool b) = []"
| "checkField ZBoolean v = [invalidType ''boolean'' v]"
| "checkField (ZIntMin lo) (JNum n) =
     (if n < int lo then [''Number must be greater than or equal to '' @ decimal (int lo)] else [])"
| "checkField (ZIntMin lo) v = [invalidType ''number'' v]"

type_synonym shape = "(string \<times> zfield \<times> bool) list"

definition fieldValue :: "(string \<times> jv) list \<Rightarrow> string \<Rightarrow> jv" where
  "fieldValue kvs k = (case map_of kvs k of None \<Rightarrow> JUndef | Some v \<Rightarrow> v)"

definition fieldIssues :: "(string \<times> jv) list \<Rightarrow> string \<times> zfield \<times> bool \<Rightarrow> issue list" where
  "fieldIssues kvs = (\<lambda>(k, f, opt).
     if opt \<and> fieldValue kvs k = JUndef then [] else map (Pair k) (checkField f (fieldValue kvs k)))"

definition z_object :: "shape \<Rightarrow> ZodSchema" where
  "z_object sh v =
     (case v of
        JObj kvs \<Rightarrow>
          (let issues = concat (map (fieldIssues kvs) sh) in
           if issues = []
           then Inr (JObj (List.map_filter
                  (\<lambda>(k, f, opt). if fieldValue kvs k = JUndef then None else Some (k, fieldValue kvs k))
                  sh))
           else Inl (ZodError issues))
      | _ \<Rightarrow> Inl (ZodError [([], invalidType ''object'' v)]))"

definition pathSchema_axiomId :: ZodSchema where
  "pathSchema_axiomId = z_object [(''axiomId'', ZString 1 None, False)]"

definition create_bodySchema :: ZodSchema where
  "create_bodySchema =
     z_object [(''name'', ZString 1 (Some 100), False),
               (''description'', ZString 1 (Some 500), False),
               (''isActive'', ZBoolean, True),
               (''sortOrder'', ZIntMin 0, True)]"

definition update_bodySchema :: ZodSchema where
  "update_bodySchema =
     z_object [(''name'', ZString 1 (Some 100), True),
               (''description'', ZString 1 (Some 500), True),
               (''isActive'', ZBoolean, True),
               (''sortOrder'', ZIntMin 0, True)]"

section \<open>The exported entry points\<close>

definition noOptions :: MiddlewareOptions where
  "noOptions = \<lparr>bodySchema = None, pathSchema = None, querySchema = None, corsOrigins = None\<rparr>"

definition list_main :: "host \<Rightarrow> event \<Rightarrow> world \<Rightarrow> outcome \<times> world" where
  "list_main h = withMiddleware h (list_handler h) noOptions"

definition get_main :: "host \<Rightarrow> event \<Rightarrow> world \<Rightarrow> outcome \<times> world" where
  "get_main h = withMiddleware h (get_handler h) (noOptions\<lparr>pathSchema := Some pathSchema_axiomId\<rparr>)"

definition create_main :: "host \<Rightarrow> event \<Rightarrow> world \<Rightarrow> outcome \<times> world" where
  "create_main h = withMiddleware h (create_handler h) (noOptions\<lparr>bodySchema := Some create_bodySchema\<rparr>)"

definition update_main :: "host \<Rightarrow> event \<Rightarrow> world \<Rightarrow> outcome \<times> world" where
  "update_main h =
     withMiddleware h (update_handler h)
       (noOptions\<lparr>pathSchema := Some pathSchema_axiomId, bodySchema := Some update_bodySchema\<rparr>)"


section \<open>Sample deployments and requests\<close>

text \<open>
  Two origin selections. \<open>firstOrigin\<close> is the one of release 5.0 of the CORS middleware:
  the request's origin when it is one of the configured origins, else the first of them.
  \<open>matchingOrigin\<close> gives a value only to a request that names its origin: the wildcard
  admits that origin, which is then the value (credentials are on), and so does a
  configured origin equal to it. A request without an \<open>Origin\<close> header gets none.
\<close>

definition firstOrigin :: "string option \<Rightarrow> string list \<Rightarrow> string option" where
  "firstOrigin incoming origins =
     (case origins of
        [] \<Rightarrow> (case incoming of None \<Rightarrow> Some ''*'' | Some i \<Rightarrow> if i = [] then Some ''*'' else Some i)
      | x # xs \<Rightarrow>
          (case incoming of
             None \<Rightarrow> Some x
           | Some i \<Rightarrow> if i \<noteq> [] \<and> i \<in> set origins then Some i else Some x))"


text \<open>The identifiers of the sample deployments: a stem and the number of the call.\<close>

definition prodHost :: host where
  "prodHost = \<lparr>ENVIRONMENT = Some ''prod'', dateNow = 1700000000000,
     isoNow = ''2023-11-14T22:13:20.000Z'', random36 = ''k3j9x2a'',
     ulidAt = (\<lambda>n. ''01HF7YAT00QWERTYASDFGZ'' @ decimal (int n)),
     removeUndefinedValues = True, getOrigin = firstOrigin, fallback500 = True\<rparr>"


definition request0 :: event where
  "request0 = \<lparr>evHeaders = Map.empty, requestId = Some ''req-1'', claimsSub = Some ''alice'',
     evBody = JNull, pathParameters = JNull, queryStringParameters = JNull\<rparr>"

definition systemAxiom :: Axiom where
  "systemAxiom = \<lparr>userId = ''system'', axiomId = ''b'', name = Some ''Clarity'',
     description = Some ''Be clear'', isDefault = True, isActive = True, sortOrder = 0,
     createdAt = ''2023-01-01T00:00:00.000Z'', updatedAt = ''2023-01-01T00:00:00.000Z''\<rparr>"

definition aliceAxiom :: Axiom where
  "aliceAxiom = \<lparr>userId = ''alice'', axiomId = ''a'', name = Some ''Brevity'',
     description = Some ''Keep it short'', isDefault = False, isActive = True, sortOrder = 0,
     createdAt = ''2023-02-01T00:00:00.000Z'', updatedAt = ''2023-02-01T00:00:00.000Z''\<rparr>"

definition world0 :: world where
  "world0 = \<lparr>table = [aliceAxiom, systemAxiom], logged = [], drawn = 0\<rparr>"

definition bobAxiom :: Axiom where
  "bobAxiom = aliceAxiom\<lparr>userId := ''bob'', axiomId := ''z''\<rparr>"


definition emptyObject :: event where
  "emptyObject = request0\<lparr>evBody := JObj []\<rparr>"

definition emptyPath :: event where
  "emptyPath = request0\<lparr>pathParameters := JObj []\<rparr>"

definition emptyQuery :: event where
  "emptyQuery = request0\<lparr>queryStringParameters := JObj []\<rparr>"

definition askFor :: "string \<Rightarrow> event" where
  "askFor aid = request0\<lparr>pathParameters := JObj [(''axiomId'', JStr aid)],
     evBody := JObj [(''sortOrder'', JNum 5)]\<rparr>"

definition outOfRange :: event where
  "outOfRange = (askFor ''a'')\<lparr>evBody := JObj [(''sortOrder'', JNum 9007199254740992)]\<rparr>"

definition createRequest :: event where
  "createRequest = request0\<lparr>evBody :=
     JObj [(''name'', JStr ''Brevity''), (''description'', JStr ''Keep it short'')]\<rparr>"

section \<open>The specification's statements\<close>

text \<open>
  The partial update as the specification words it: a field the input leaves out keeps
  its value, a field the input gives takes the given value, \<open>updatedAt\<close> is refreshed.
\<close>

definition partialUpdate_spec :: "host \<Rightarrow> UpdateAxiomInput \<Rightarrow> Axiom \<Rightarrow> Axiom" where
  "partialUpdate_spec h inp a =
     a\<lparr>name := (case up_name inp of None \<Rightarrow> name a | Some v \<Rightarrow> Some v),
       description := (case up_description inp of None \<Rightarrow> description a | Some v \<Rightarrow> Some v),
       isActive := (case up_isActive inp of None \<Rightarrow> isActive a | Some v \<Rightarrow> v),
       sortOrder := (case up_sortOrder inp of None \<Rightarrow> sortOrder a | Some v \<Rightarrow> v),
       updatedAt := isoNow h\<rparr>"

text \<open>The table after the partial update: the item under the key is replaced, no other.\<close>

definition storeAfterUpdate ::
  "host \<Rightarrow> string \<Rightarrow> string \<Rightarrow> UpdateAxiomInput \<Rightarrow> Axiom list \<Rightarrow> Axiom list" where
  "storeAfterUpdate h uid aid inp t =
     map (\<lambda>b. if userId b = uid \<and> axiomId b = aid then partialUpdate_spec h inp b else b) t"

text \<open>
  An update input the document client accepts: its \<open>sortOrder\<close>, when given, is a safe
  integer, between \<open>-(2^53 - 1)\<close> and \<open>2^53 - 1\<close>.
\<close>

definition safeInteger :: "int \<Rightarrow> bool" where
  "safeInteger n = (- MAX_SAFE_INTEGER \<le> n \<and> n \<le> MAX_SAFE_INTEGER)"

definition safeInput :: "UpdateAxiomInput \<Rightarrow> bool" where
  "safeInput inp = (case up_sortOrder inp of None \<Rightarrow> True | Some n \<Rightarrow> safeInteger n)"

text \<open>The attributes an update may write: \<open>updatedAt\<close> and the fields the input gives.\<close>

definition writtenAttributes :: "UpdateAxiomInput \<Rightarrow> string list" where
  "writtenAttributes inp =
     ''updatedAt'' #
     (if up_name inp = None then [] else [''name'']) @
     (if up_description inp = None then [] else [''description'']) @
     (if up_isActive inp = None then [] else [''isActive'']) @
     (if up_sortOrder inp = None then [] else [''sortOrder''])"

text \<open>
  The merged listing as the specification words it: the default records and the caller's
  own records, sorted by \<open>sortOrder\<close>, the order of the two queries deciding between equal
  \<open>sortOrder\<close> values. The second definition is the order the claim C4 states.
\<close>

definition mergedListing :: "string \<Rightarrow> Axiom list \<Rightarrow> Axiom list" where
  "mergedListing uid t = sort_key sortOrder (findDefaults t @ findByUserId uid t)"


text \<open>The key of an item; a table has at most one item per key.\<close>

definition key :: "Axiom \<Rightarrow> string \<times> string" where
  "key a = (userId a, axiomId a)"



text \<open>
  The answer to a request that validation rejects with the issues \<open>errors\<close>: the 400
  response with one entry for each issue, and a world in which nothing happened but the
  two log entries of the request logger and of the validator.
\<close>

definition rejectedWith :: "host \<Rightarrow> issue list \<Rightarrow> world \<Rightarrow> outcome \<times> world" where
  "rejectedWith h errors w =
     (Returned (Some \<lparr>statusCode = 400, headers = getCorsHeaders h,
        body = ErrorBody ''Validation Error'' ''Invalid request data'' (Some errors)\<rparr>),
      logger ''Request validation failed'' (logger ''Request received'' w))"

definition answers400 :: "outcome \<Rightarrow> bool" where
  "answers400 out = (case out of Returned (Some res) \<Rightarrow> statusCode res = 400 | _ \<Rightarrow> False)"


text \<open>
  What \<open>runRequest\<close> does once the validator has let the request through with the event
  \<open>e'\<close>: the handler runs; its response goes through the \<open>after\<close> hooks of the request logger
  and of the CORS middleware; its error goes through the \<open>onError\<close> hooks of the error
  handler, the request logger and the CORS middleware.
\<close>

definition dispatch ::
  "host \<Rightarrow> handler \<Rightarrow> MiddlewareOptions \<Rightarrow> event \<Rightarrow> event \<Rightarrow> world \<Rightarrow> outcome \<times> world" where
  "dispatch h lh options e e' w =
     (case lh e' (logger ''Request received'' w) of
        (Inr res, w2) \<Rightarrow>
          (Returned (Some (res\<lparr>headers := corsHeaders h (chosenOrigins h options) e'
              ((headers res)(''X-Correlation-Id'' \<mapsto> resolveCorrelationId h e))\<rparr>)),
           logger ''Request completed'' w2)
      | (Inl x, w2) \<Rightarrow>
          (if fallback500 h
           then Returned (Some \<lparr>statusCode = 500,
                  headers = corsHeaders h (chosenOrigins h options) e' Map.empty, body = NoBody\<rparr>)
           else Rejected x,
           logger ''Request failed'' (logger ''Unhandled error'' w2)))"

text \<open>A schema that throws nothing but a \<open>ZodError\<close>.\<close>

definition zodOnly :: "ZodSchema option \<Rightarrow> bool" where
  "zodOnly s =
     (case s of None \<Rightarrow> True | Some f \<Rightarrow> (\<forall>v x. f v = Inl x \<longrightarrow> (\<exists>errors. x = ZodError errors)))"

section \<open>The repository: lemmas\<close>

lemma find_SomeD: "find P xs = Some x \<Longrightarrow> P x \<and> x \<in> set xs"
  by (induction xs) (auto split: if_splits)

lemma find_map_same:
  assumes "\<And>x. P (f x) = P x"
  shows "find P (map f xs) = map_option f (find P xs)"
  using assms by (induction xs) auto

lemma foldl_setAttr: "foldl setAttr a (updateExpressions h inp) = partialUpdate_spec h inp a"
  by (cases "up_name inp"; cases "up_description inp"; cases "up_isActive inp";
      cases "up_sortOrder inp")
     (simp_all add: updateExpressions_def partialUpdate_spec_def)

lemma partialUpdate_key [simp]:
  "userId (partialUpdate_spec h inp a) = userId a"
  "axiomId (partialUpdate_spec h inp a) = axiomId a"
  by (simp_all add: partialUpdate_spec_def)

text \<open>Marshalling changes no value: it hands the values on or refuses.\<close>

lemma marshall_values:
  "marshall h (map (\<lambda>(k, v). (k, Some v)) xs) = Inr ys \<Longrightarrow> ys = xs"
proof (induction xs arbitrary: ys)
  case Nil
  then show ?case by simp
next
  case (Cons x xs)
  obtain k v where x: "x = (k, v)" by (cases x)
  show ?case
    using Cons.prems Cons.IH
    by (cases v) (auto simp: x split: sum.splits if_splits)
qed

lemma marshall_safe:
  "safeInput inp \<Longrightarrow>
     marshall h (map (\<lambda>(k, v). (k, Some v)) (updateExpressions h inp)) = Inr (updateExpressions h inp)"
  by (cases "up_name inp"; cases "up_description inp"; cases "up_isActive inp";
      cases "up_sortOrder inp")
     (simp_all add: updateExpressions_def safeInput_def safeInteger_def)

lemma marshall_unsafe:
  "up_sortOrder inp = Some n \<Longrightarrow> MAX_SAFE_INTEGER < n \<Longrightarrow>
     marshall h (map (\<lambda>(k, v). (k, Some v)) (updateExpressions h inp)) =
       Inl (Error (''Number '' @ decimal n @ '' is greater than Number.MAX_SAFE_INTEGER. Use BigInt.''))"
  by (cases "up_name inp"; cases "up_description inp"; cases "up_isActive inp")
     (simp_all add: updateExpressions_def)

text \<open>An update that goes through is the partial update of the item under the key.\<close>

lemma update_Inr:
  assumes "update h uid aid inp t = Inr (r, t')"
  shows "t' = storeAfterUpdate h uid aid inp t"
    and "r = map_option (partialUpdate_spec h inp) (findById uid aid t)"
proof -
  let ?f = "\<lambda>b. if userId b = uid \<and> axiomId b = aid then partialUpdate_spec h inp b else b"
  let ?P = "\<lambda>a. userId a = uid \<and> axiomId a = aid"
  obtain vs where m: "marshall h (map (\<lambda>(k, v). (k, Some v)) (updateExpressions h inp)) = Inr vs"
    using assms by (auto simp: update_def split: sum.splits)
  then have vs: "vs = updateExpressions h inp"
    by (rule marshall_values)
  show "t' = storeAfterUpdate h uid aid inp t"
    using assms m
    by (simp add: update_def vs foldl_setAttr Let_def storeAfterUpdate_def cong: if_cong)
  have "find ?P (map ?f t) = map_option ?f (find ?P t)"
    by (rule find_map_same) simp
  moreover have "map_option ?f (find ?P t) = map_option (partialUpdate_spec h inp) (find ?P t)"
    by (cases "find ?P t") (auto dest: find_SomeD)
  ultimately show "r = map_option (partialUpdate_spec h inp) (findById uid aid t)"
    using assms m by (simp add: update_def vs foldl_setAttr Let_def findById_def cong: if_cong)
qed

lemma update_safe:
  assumes "safeInput inp"
  shows "update h uid aid inp t =
     Inr (map_option (partialUpdate_spec h inp) (findById uid aid t),
          storeAfterUpdate h uid aid inp t)"
proof -
  obtain r t' where u: "update h uid aid inp t = Inr (r, t')"
    using marshall_safe [OF assms, of h] by (auto simp: update_def Let_def)
  show ?thesis
    using update_Inr [OF u] u by simp
qed

text \<open>
  A \<open>sortOrder\<close> above the safe integers: the document client refuses the number, \<open>update\<close>
  throws before anything is sent to the store.
\<close>

lemma update_unsafe:
  "up_sortOrder inp = Some n \<Longrightarrow> MAX_SAFE_INTEGER < n \<Longrightarrow>
     update h uid aid inp t =
       Inl (Error (''Number '' @ decimal n @ '' is greater than Number.MAX_SAFE_INTEGER. Use BigInt.''))"
  by (simp add: update_def marshall_unsafe)

lemma storeAfterUpdate_stored:
  "findById uid aid (storeAfterUpdate h uid aid inp t) =
     map_option (partialUpdate_spec h inp) (findById uid aid t)"
proof -
  let ?f = "\<lambda>b. if userId b = uid \<and> axiomId b = aid then partialUpdate_spec h inp b else b"
  let ?P = "\<lambda>a. userId a = uid \<and> axiomId a = aid"
  have "find ?P (map ?f t) = map_option ?f (find ?P t)"
    by (rule find_map_same) simp
  moreover have "map_option ?f (find ?P t) = map_option (partialUpdate_spec h inp) (find ?P t)"
    by (cases "find ?P t") (auto dest: find_SomeD)
  ultimately show ?thesis
    by (simp add: storeAfterUpdate_def findById_def)
qed

lemma updateExpressions_names: "map fst (updateExpressions h inp) = writtenAttributes inp"
  by (cases "up_name inp"; cases "up_description inp"; cases "up_isActive inp";
      cases "up_sortOrder inp")
     (simp_all add: updateExpressions_def writtenAttributes_def)

text \<open>
  The item \<open>PutCommand\<close> sends for an \<open>Axiom\<close> object holds \<open>isDefault\<close> as a boolean
  attribute, and the index keys it as a string: the store refuses every such put.
\<close>

lemma marshall_isDefault:
  "marshall h (itemOf a) = Inr item \<Longrightarrow> map_of item ''isDefault'' = Some (BOOL (isDefault a))"
  by (cases "name a"; cases "description a")
     (auto simp: itemOf_def split: sum.splits if_splits)

lemma putItem_refused: "\<exists>x. putItem h a t = Inl x"
proof (cases "marshall h (itemOf a)")
  case (Inl x)
  then show ?thesis by (simp add: putItem_def)
next
  case (Inr item)
  then show ?thesis
    using marshall_isDefault [OF Inr]
    by (simp add: putItem_def keyMismatch_def default_axioms_index_def)
qed

lemma create_refused:
  "\<exists>x. create h uid inp w = (Inl x, w\<lparr>drawn := Suc (drawn w)\<rparr>)"
proof -
  obtain x where "putItem h \<lparr>userId = uid, axiomId = ulidAt h (drawn w), name = in_name inp,
      description = in_description inp, isDefault = False,
      isActive = (case in_isActive inp of None \<Rightarrow> True | Some b \<Rightarrow> b),
      sortOrder = (case in_sortOrder inp of None \<Rightarrow> 0 | Some n \<Rightarrow> n),
      createdAt = isoNow h, updatedAt = isoNow h\<rparr> (table w) = Inl x"
    using putItem_refused by blast
  then show ?thesis
    by (simp add: create_def Let_def)
qed

section \<open>Claims about the repository\<close>

text \<open>
  C5, as amended. For a record that exists under the caller's key and an input whose
  \<open>sortOrder\<close>, when given, is a safe integer, \<open>update\<close> returns and stores the record with
  exactly the fields of the input replaced and \<open>updatedAt\<close> refreshed: a field the input
  leaves out keeps its stored value, the key, \<open>isDefault\<close> and \<open>createdAt\<close> are never
  written, the attributes written are \<open>updatedAt\<close> and the fields the input gives, and no
  other item of the table changes. For a record that is not a default the update handler
  answers 200 with that record. Beyond the safe integers the document client refuses the
  number and no update takes place (\<open>update_unsafe\<close>).
\<close>

theorem update_writes_only_given_fields:
  assumes "findById uid aid t = Some a" and "safeInput inp"
  shows "update h uid aid inp t =
       Inr (Some (partialUpdate_spec h inp a), storeAfterUpdate h uid aid inp t)
     \<and> findById uid aid (storeAfterUpdate h uid aid inp t) = Some (partialUpdate_spec h inp a)
     \<and> storeAfterUpdate h uid aid inp t =
         map (\<lambda>b. if userId b = uid \<and> axiomId b = aid then partialUpdate_spec h inp b else b) t
     \<and> map fst (updateExpressions h inp) = writtenAttributes inp
     \<and> updatedAt (partialUpdate_spec h inp a) = isoNow h
     \<and> (up_name inp = None \<longrightarrow> name (partialUpdate_spec h inp a) = name a)
     \<and> (up_description inp = None \<longrightarrow> description (partialUpdate_spec h inp a) = description a)
     \<and> (up_isActive inp = None \<longrightarrow> isActive (partialUpdate_spec h inp a) = isActive a)
     \<and> (up_sortOrder inp = None \<longrightarrow> sortOrder (partialUpdate_spec h inp a) = sortOrder a)
     \<and> userId (partialUpdate_spec h inp a) = userId a
     \<and> axiomId (partialUpdate_spec h inp a) = axiomId a
     \<and> isDefault (partialUpdate_spec h inp a) = isDefault a
     \<and> createdAt (partialUpdate_spec h inp a) = createdAt a
     \<and> (\<forall>e w. getUserId e = Inr uid \<and> getProp (pathParameters e) ''axiomId'' = Inr (JStr aid)
            \<and> aid \<noteq> [] \<and> table w = t \<and> \<not> isDefault a \<and> asUpdateAxiomInput (evBody e) = Inr inp
          \<longrightarrow> update_handler h e w =
                (Inr (success (AxiomBody (partialUpdate_spec h inp a)
                        (Some ''Axiom updated successfully''))),
                 (logger ''Updating axiom'' w)\<lparr>table := storeAfterUpdate h uid aid inp t\<rparr>))"
proof -
  let ?a' = "partialUpdate_spec h inp a"
  have r: "update h uid aid inp t = Inr (Some ?a', storeAfterUpdate h uid aid inp t)"
    using assms by (simp add: update_safe)
  have st: "findById uid aid (storeAfterUpdate h uid aid inp t) = Some ?a'"
    using assms(1) by (simp add: storeAfterUpdate_stored)
  have tb: "storeAfterUpdate h uid aid inp t =
      map (\<lambda>b. if userId b = uid \<and> axiomId b = aid then partialUpdate_spec h inp b else b) t"
    by (simp add: storeAfterUpdate_def)
  have nm: "map fst (updateExpressions h inp) = writtenAttributes inp"
    by (rule updateExpressions_names)
  have f1: "updatedAt ?a' = isoNow h"
    and f2: "up_name inp = None \<longrightarrow> name ?a' = name a"
    and f3: "up_description inp = None \<longrightarrow> description ?a' = description a"
    and f4: "up_isActive inp = None \<longrightarrow> isActive ?a' = isActive a"
    and f5: "up_sortOrder inp = None \<longrightarrow> sortOrder ?a' = sortOrder a"
    and f6: "userId ?a' = userId a" and f7: "axiomId ?a' = axiomId a"
    and f8: "isDefault ?a' = isDefault a" and f9: "createdAt ?a' = createdAt a"
    by (simp_all add: partialUpdate_spec_def)
  have hd: "update_handler h e w =
          (Inr (success (AxiomBody ?a' (Some ''Axiom updated successfully''))),
           (logger ''Updating axiom'' w)\<lparr>table := storeAfterUpdate h uid aid inp t\<rparr>)"
    if "getUserId e = Inr uid" "getProp (pathParameters e) ''axiomId'' = Inr (JStr aid)"
       "aid \<noteq> []" "table w = t" "\<not> isDefault a" "asUpdateAxiomInput (evBody e) = Inr inp"
    for e w
    using that assms(1) r by (simp add: update_handler_def logger_def Let_def)
  from r st tb nm f1 f2 f3 f4 f5 f6 f7 f8 f9 hd show ?thesis
    by blast
qed

text \<open>
  The caller \<open>alice\<close> sets the \<open>sortOrder\<close> of her record to 5: the name stays, the handler
  answers with the new record.
\<close>

theorem update_writes_only_given_fields_witness:
  "findById ''alice'' ''a'' (table world0) = Some aliceAxiom
   \<and> safeInput \<lparr>up_name = None, up_description = None, up_isActive = None, up_sortOrder = Some 5\<rparr>
   \<and> update prodHost ''alice'' ''a''
          \<lparr>up_name = None, up_description = None, up_isActive = None, up_sortOrder = Some 5\<rparr>
          (table world0)
       = Inr (Some (aliceAxiom\<lparr>sortOrder := 5, updatedAt := ''2023-11-14T22:13:20.000Z''\<rparr>),
              [aliceAxiom\<lparr>sortOrder := 5, updatedAt := ''2023-11-14T22:13:20.000Z''\<rparr>, systemAxiom])
   \<and> name (aliceAxiom\<lparr>sortOrder := 5, updatedAt := ''2023-11-14T22:13:20.000Z''\<rparr>) = Some ''Brevity''
   \<and> fst (update_handler prodHost (askFor ''a'') world0)
       = Inr (success (AxiomBody
           (aliceAxiom\<lparr>sortOrder := 5, updatedAt := ''2023-11-14T22:13:20.000Z''\<rparr>)
           (Some ''Axiom updated successfully'')))"
proof -
  let ?inp = "\<lparr>up_name = None, up_description = None, up_isActive = None, up_sortOrder = Some 5\<rparr>"
  have f: "findById ''alice'' ''a'' (table world0) = Some aliceAxiom"
    by (simp add: findById_def world0_def aliceAxiom_def)
  have s: "safeInput ?inp"
    by (simp add: safeInput_def safeInteger_def MAX_SAFE_INTEGER_def)
  have p: "partialUpdate_spec prodHost ?inp aliceAxiom
      = aliceAxiom\<lparr>sortOrder := 5, updatedAt := ''2023-11-14T22:13:20.000Z''\<rparr>"
    by (simp add: partialUpdate_spec_def prodHost_def)
  have q: "storeAfterUpdate prodHost ''alice'' ''a'' ?inp (table world0)
      = [partialUpdate_spec prodHost ?inp aliceAxiom, systemAxiom]"
    by (simp add: storeAfterUpdate_def world0_def aliceAxiom_def systemAxiom_def)
  have g: "getUserId (askFor ''a'') = Inr ''alice''
     \<and> getProp (pathParameters (askFor ''a'')) ''axiomId'' = Inr (JStr ''a'')
     \<and> ''a'' \<noteq> [] \<and> table world0 = table world0 \<and> \<not> isDefault aliceAxiom
     \<and> asUpdateAxiomInput (evBody (askFor ''a'')) = Inr ?inp"
    by (simp add: askFor_def request0_def getUserId_def aliceAxiom_def asUpdateAxiomInput_def)
  note c = update_writes_only_given_fields [OF f s, where h = prodHost]
  have r1: "update prodHost ''alice'' ''a'' ?inp (table world0)
      = Inr (Some (partialUpdate_spec prodHost ?inp aliceAxiom),
             storeAfterUpdate prodHost ''alice'' ''a'' ?inp (table world0))"
    by (rule c [THEN conjunct1])
  have r2: "name (partialUpdate_spec prodHost ?inp aliceAxiom) = name aliceAxiom"
    using c [THEN conjunct2, THEN conjunct2, THEN conjunct2, THEN conjunct2, THEN conjunct2,
        THEN conjunct1]
    by simp
  have r3: "update_handler prodHost (askFor ''a'') world0 =
      (Inr (success (AxiomBody (partialUpdate_spec prodHost ?inp aliceAxiom)
              (Some ''Axiom updated successfully''))),
       (logger ''Updating axiom'' world0)
         \<lparr>table := storeAfterUpdate prodHost ''alice'' ''a'' ?inp (table world0)\<rparr>)"
    by (rule c [THEN conjunct2, THEN conjunct2, THEN conjunct2, THEN conjunct2, THEN conjunct2,
        THEN conjunct2, THEN conjunct2, THEN conjunct2, THEN conjunct2, THEN conjunct2,
        THEN conjunct2, THEN conjunct2, THEN conjunct2, THEN spec, THEN spec, THEN mp, OF g])
  have n: "name aliceAxiom = Some ''Brevity''"
    by (simp add: aliceAxiom_def)
  show ?thesis
    using f s r1 r2 r3 n by (simp add: p q)
qed

section \<open>The handlers: lemmas\<close>

lemma logger_table [simp]: "table (logger m w) = table w"
  by (simp add: logger_def)

lemma findById_distinct:
  "distinct (map key t) \<Longrightarrow> a \<in> set t \<Longrightarrow> findById (userId a) (axiomId a) t = Some a"
  by (induction t) (auto simp: findById_def key_def rev_image_eqI)

lemma findById_None_iff:
  "findById uid aid t = None \<longleftrightarrow> (\<forall>a\<in>set t. \<not> (userId a = uid \<and> axiomId a = aid))"
  by (auto simp: findById_def find_None_iff)

lemma list_handler_result:
  assumes "getUserId e = Inr uid"
  shows "list_handler h e w =
     (Inr (success (ListBody (mergedListing uid (table w)) (length (mergedListing uid (table w)))
        (length (findByUserId uid (table w))) (length (findDefaults (table w))))),
      logger ''Listing axioms for user'' w)"
  using assms by (simp add: list_handler_def mergedListing_def Let_def logger_def)

lemma get_handler_absent:
  assumes "getUserId e = Inr uid" "getProp (pathParameters e) ''axiomId'' = Inr (JStr aid)"
    and "aid \<noteq> []" "findById uid aid (table w) = None"
  shows "get_handler h e w = (Inr (notFound h ''Axiom not found''), logger ''Getting axiom'' w)"
  using assms by (simp add: get_handler_def Let_def)

lemma update_handler_table:
  "table (snd (update_handler h e w)) = table w
   \<or> (\<exists>uid aid inp existing. findById uid aid (table w) = Some existing \<and> \<not> isDefault existing
        \<and> table (snd (update_handler h e w)) = storeAfterUpdate h uid aid inp (table w))"
  by (auto simp: update_handler_def logger_def Let_def
      split: sum.splits option.splits prod.splits dest!: update_Inr(1))

lemma delete_handler_table:
  "table (snd (delete_handler h e w)) = table w
   \<or> (\<exists>uid aid existing. findById uid aid (table w) = Some existing \<and> \<not> isDefault existing
        \<and> table (snd (delete_handler h e w)) = deleteItem uid aid (table w))"
  by (auto simp: delete_handler_def logger_def Let_def split: sum.splits option.splits prod.splits)

lemma default_survives:
  assumes "distinct (map key t)" "a \<in> set t" "isDefault a"
    and "findById uid aid t = Some existing" "\<not> isDefault existing"
  shows "a \<in> set (storeAfterUpdate h uid aid inp t)" "a \<in> set (deleteItem uid aid t)"
proof -
  have "\<not> (userId a = uid \<and> axiomId a = aid)"
    using assms findById_distinct [OF assms(1,2)] by auto
  then show "a \<in> set (storeAfterUpdate h uid aid inp t)" "a \<in> set (deleteItem uid aid t)"
    using assms(2) by (auto simp: storeAfterUpdate_def deleteItem_def intro!: rev_image_eqI)
qed

section \<open>Claims about the handlers\<close>




text \<open>
  C6, as amended. A record with \<open>isDefault = true\<close> is never changed by the update and
  delete operations, whoever calls them and whatever they answer. They answer 403 when
  the caller's id is the id the record is stored under; the record is looked up under the
  caller's id, so a caller who holds no record of that identifier is answered 404. Both
  answers leave the whole table as it is.
\<close>

theorem default_records_are_never_written:
  assumes "distinct (map key (table w))" "a \<in> set (table w)" "isDefault a"
  shows "a \<in> set (table (snd (update_handler h e w)))
     \<and> a \<in> set (table (snd (delete_handler h e w)))
     \<and> (getUserId e = Inr (userId a)
          \<and> getProp (pathParameters e) ''axiomId'' = Inr (JStr (axiomId a)) \<and> axiomId a \<noteq> [] \<longrightarrow>
          update_handler h e w =
            (Inr (forbidden h ''Cannot update default axioms''), logger ''Updating axiom'' w)
          \<and> delete_handler h e w =
            (Inr (forbidden h ''Cannot delete default axioms''), logger ''Deleting axiom'' w)
          \<and> statusCode (forbidden h ''Cannot update default axioms'') = 403
          \<and> statusCode (forbidden h ''Cannot delete default axioms'') = 403)
     \<and> (\<forall>uid aid. getUserId e = Inr uid
          \<and> getProp (pathParameters e) ''axiomId'' = Inr (JStr aid) \<and> aid \<noteq> []
          \<and> findById uid aid (table w) = None \<longrightarrow>
          update_handler h e w = (Inr (notFound h ''Axiom not found''), logger ''Updating axiom'' w)
          \<and> delete_handler h e w = (Inr (notFound h ''Axiom not found''), logger ''Deleting axiom'' w)
          \<and> statusCode (notFound h ''Axiom not found'') = 404)"
proof -
  have u: "a \<in> set (table (snd (update_handler h e w)))"
    using update_handler_table [of h e w] assms default_survives(1) by metis
  have d: "a \<in> set (table (snd (delete_handler h e w)))"
    using delete_handler_table [of h e w] assms default_survives(2) by metis
  have f: "findById (userId a) (axiomId a) (table w) = Some a"
    using assms by (simp add: findById_distinct)
  have own: "update_handler h e w =
        (Inr (forbidden h ''Cannot update default axioms''), logger ''Updating axiom'' w)
      \<and> delete_handler h e w =
        (Inr (forbidden h ''Cannot delete default axioms''), logger ''Deleting axiom'' w)"
    if "getUserId e = Inr (userId a)"
      "getProp (pathParameters e) ''axiomId'' = Inr (JStr (axiomId a))" "axiomId a \<noteq> []"
    using that f assms(3) by (simp add: update_handler_def delete_handler_def Let_def)
  have other: "update_handler h e w =
        (Inr (notFound h ''Axiom not found''), logger ''Updating axiom'' w)
      \<and> delete_handler h e w =
        (Inr (notFound h ''Axiom not found''), logger ''Deleting axiom'' w)"
    if "getUserId e = Inr uid" "getProp (pathParameters e) ''axiomId'' = Inr (JStr aid)"
      "aid \<noteq> []" "findById uid aid (table w) = None" for uid aid
    using that by (simp add: update_handler_def delete_handler_def Let_def)
  have s: "statusCode (forbidden h ''Cannot update default axioms'') = 403"
    "statusCode (forbidden h ''Cannot delete default axioms'') = 403"
    "statusCode (notFound h ''Axiom not found'') = 404"
    by (simp_all add: forbidden_def notFound_def)
  from u d own other s show ?thesis by blast
qed

text \<open>
  The default record of the sample table: the caller \<open>alice\<close> cannot change it and is
  answered 404; the caller \<open>system\<close>, under whose id it is stored, is answered 403.
\<close>

theorem default_records_are_never_written_witness:
  "distinct (map key (table world0)) \<and> systemAxiom \<in> set (table world0) \<and> isDefault systemAxiom
   \<and> systemAxiom \<in> set (table (snd (update_handler prodHost (askFor ''b'') world0)))
   \<and> fst (update_handler prodHost ((askFor ''b'')\<lparr>claimsSub := Some ''system''\<rparr>) world0)
       = Inr (forbidden prodHost ''Cannot update default axioms'')
   \<and> fst (delete_handler prodHost (askFor ''b'') world0)
       = Inr (notFound prodHost ''Axiom not found'')"
proof -
  have a: "distinct (map key (table world0))" "systemAxiom \<in> set (table world0)"
    "isDefault systemAxiom"
    by (simp_all add: world0_def key_def systemAxiom_def aliceAxiom_def)
  have b: "getUserId ((askFor ''b'')\<lparr>claimsSub := Some ''system''\<rparr>) = Inr (userId systemAxiom)
    \<and> getProp (pathParameters ((askFor ''b'')\<lparr>claimsSub := Some ''system''\<rparr>)) ''axiomId''
        = Inr (JStr (axiomId systemAxiom))
    \<and> axiomId systemAxiom \<noteq> []"
    by (simp add: askFor_def request0_def getUserId_def systemAxiom_def)
  note c1 = default_records_are_never_written [OF a, where h = prodHost and e = "askFor ''b''"]
  note c2 = default_records_are_never_written [OF a, where h = prodHost
      and e = "(askFor ''b'')\<lparr>claimsSub := Some ''system''\<rparr>"]
  have d: "getUserId (askFor ''b'') = Inr ''alice''
    \<and> getProp (pathParameters (askFor ''b'')) ''axiomId'' = Inr (JStr ''b'') \<and> ''b'' \<noteq> []
    \<and> findById ''alice'' ''b'' (table world0) = None"
    by (simp add: askFor_def request0_def getUserId_def findById_def world0_def
        systemAxiom_def aliceAxiom_def)
  show ?thesis
    using a c1 [THEN conjunct1] c2 [THEN conjunct2, THEN conjunct2, THEN conjunct1, THEN mp, OF b]
      c1 [THEN conjunct2, THEN conjunct2, THEN conjunct2, THEN spec, THEN spec, THEN mp, OF d]
    by simp
qed

text \<open>
  Against C6 as stated: the caller \<open>alice\<close> asks to update and to delete the default
  record \<open>b\<close>, stored under \<open>system\<close>, and is answered 404.
\<close>

theorem default_of_other_owner_is_404:
  "isDefault systemAxiom \<and> systemAxiom \<in> set (table world0)
   \<and> fst (update_handler prodHost (askFor ''b'') world0) = Inr (notFound prodHost ''Axiom not found'')
   \<and> fst (delete_handler prodHost (askFor ''b'') world0) = Inr (notFound prodHost ''Axiom not found'')
   \<and> statusCode (notFound prodHost ''Axiom not found'') = 404"
  by (simp add: update_handler_def delete_handler_def askFor_def request0_def world0_def
      getUserId_def logger_def findById_def systemAxiom_def aliceAxiom_def notFound_def)

section \<open>The pipeline: lemmas\<close>

lemmas hook_defs = captureLambdaHandler_def injectLambdaContext_def logMetrics_def
  httpJsonBodyParser_def httpCors_def requestLogger_def zodValidator_def httpErrorHandler_def
  pass_def requestLogger_before_def requestLogger_after_def requestLogger_onError_def
  zodValidator_before_def httpErrorHandler_onError_def httpCors_write_def

lemma orElse_nonempty: "b \<noteq> [] \<Longrightarrow> orElse a b \<noteq> []"
  by (simp add: orElse_def split: option.splits)

lemma resolveCorrelationId_nonempty [simp]: "resolveCorrelationId h e \<noteq> []"
  by (simp add: resolveCorrelationId_def orElse_nonempty)

text \<open>The four ways through the pipeline, by what the validator and the handler do.\<close>

lemma pipeline_rejects:
  assumes "zodValidator_try options e = (Some (ZodError errors), e')"
  shows "withMiddleware h lh options e w =
     (Returned (Some \<lparr>statusCode = 400, headers = getCorsHeaders h,
        body = ErrorBody ''Validation Error'' ''Invalid request data'' (Some errors)\<rparr>),
      logger ''Request validation failed'' (logger ''Request received'' w))"
  using assms
  by (simp add: withMiddleware_def middy_def runRequest_def List.map_filter_simps hook_defs Let_def)

lemma pipeline_returns:
  assumes "zodValidator_try options e = (None, e')"
    and "lh e' (logger ''Request received'' w) = (Inr res, w2)"
  shows "withMiddleware h lh options e w =
     (Returned (Some (res\<lparr>headers := corsHeaders h (chosenOrigins h options) e'
         ((headers res)(''X-Correlation-Id'' \<mapsto> resolveCorrelationId h e))\<rparr>)),
      logger ''Request completed'' w2)"
  using assms
  by (simp add: withMiddleware_def middy_def runRequest_def List.map_filter_simps hook_defs Let_def)

lemma pipeline_throws:
  assumes "zodValidator_try options e = (None, e')"
    and "lh e' (logger ''Request received'' w) = (Inl x, w2)"
  shows "withMiddleware h lh options e w =
     (if fallback500 h
      then Returned (Some \<lparr>statusCode = 500,
             headers = corsHeaders h (chosenOrigins h options) e' Map.empty, body = NoBody\<rparr>)
      else Rejected x,
      logger ''Request failed'' (logger ''Unhandled error'' w2))"
  using assms
  by (simp add: withMiddleware_def middy_def runRequest_def runOnError_def List.map_filter_simps
      hook_defs Let_def)

lemma pipeline_validator_throws:
  assumes "zodValidator_try options e = (Some x, e')" and "\<forall>errors. x \<noteq> ZodError errors"
  shows "withMiddleware h lh options e w =
     (if fallback500 h
      then Returned (Some \<lparr>statusCode = 500,
             headers = corsHeaders h (chosenOrigins h options) e' Map.empty, body = NoBody\<rparr>)
      else Rejected x,
      logger ''Request failed'' (logger ''Unhandled error'' (logger ''Request received'' w)))"
  using assms
  by (cases x)
     (simp_all add: withMiddleware_def middy_def runRequest_def runOnError_def
        List.map_filter_simps hook_defs Let_def)

lemma pipeline_dispatches:
  "zodValidator_try options e = (None, e') \<Longrightarrow>
     withMiddleware h lh options e w = dispatch h lh options e e' w"
  by (cases "lh e' (logger ''Request received'' w)";
      cases "fst (lh e' (logger ''Request received'' w))")
     (simp_all add: dispatch_def pipeline_returns pipeline_throws)

lemma pipeline_outcomes:
  obtains (rejected) errors e' where "zodValidator_try options e = (Some (ZodError errors), e')"
  | (failed) x e' where "zodValidator_try options e = (Some x, e')" "\<forall>errors. x \<noteq> ZodError errors"
  | (passed) e' where "zodValidator_try options e = (None, e')"
proof (cases "zodValidator_try options e")
  case (Pair r e')
  show ?thesis
  proof (cases r)
    case None
    then show ?thesis using Pair passed by simp
  next
    case (Some x)
    show ?thesis
    proof (cases "\<exists>errors. x = ZodError errors")
      case True
      then show ?thesis using Pair Some rejected by auto
    next
      case False
      then show ?thesis using Pair Some failed by auto
    qed
  qed
qed

lemma withMiddleware_try_cong:
  assumes "zodValidator_try options e = zodValidator_try options' e"
    and "chosenOrigins h options = chosenOrigins h options'"
  shows "withMiddleware h lh options e w = withMiddleware h lh options' e w"
proof (cases options e rule: pipeline_outcomes)
  case (rejected errors e')
  then show ?thesis using assms by (simp add: pipeline_rejects)
next
  case (failed x e')
  then show ?thesis using assms by (simp add: pipeline_validator_throws)
next
  case (passed e')
  then show ?thesis
    using assms by (simp add: pipeline_dispatches dispatch_def split: prod.splits sum.splits)
qed



lemma corsHeaders_other:
  "k \<noteq> ''Access-Control-Allow-Origin'' \<Longrightarrow> k \<noteq> ''Access-Control-Allow-Credentials'' \<Longrightarrow>
   k \<noteq> ''Access-Control-Allow-Headers'' \<Longrightarrow> corsHeaders h os e hs k = hs k"
  by (simp add: corsHeaders_def addHeader_def allowOrigin_def split: option.splits)

lemma getCorsHeaders_keys:
  "getCorsHeaders h ''Access-Control-Allow-Origin'' =
     Some (if environment h = ''dev'' then ''http://localhost:3000'' else ''*'')"
  "getCorsHeaders h ''Access-Control-Allow-Credentials'' = Some ''true''"
  "getCorsHeaders h ''Access-Control-Allow-Headers'' \<noteq> None"
  "getCorsHeaders h ''X-Correlation-Id'' = None"
  by (simp_all add: getCorsHeaders_def isDevEnvironment_def)




lemma try_noOptions [simp]: "zodValidator_try noOptions e = (None, e)"
  by (simp add: zodValidator_try_def noOptions_def parseIfPresent_def)

lemma try_skips_body:
  "\<not> truthy (evBody e) \<Longrightarrow>
     zodValidator_try options e = zodValidator_try (options\<lparr>bodySchema := None\<rparr>) e"
  by (cases "bodySchema options")
     (auto simp: zodValidator_try_def parseIfPresent_def Let_def split: sum.splits option.splits)

lemma try_keeps_body:
  "\<not> truthy (evBody e) \<Longrightarrow> evBody (snd (zodValidator_try options e)) = evBody e"
  by (auto simp: zodValidator_try_def parseIfPresent_def Let_def split: option.splits sum.splits)

lemma try_body_only:
  "\<not> truthy (evBody e) \<Longrightarrow> pathSchema options = None \<Longrightarrow> querySchema options = None \<Longrightarrow>
     zodValidator_try options e = (None, e)"
  by (simp add: zodValidator_try_def parseIfPresent_def split: option.splits)

text \<open>The declared schemas throw a \<open>ZodError\<close> and nothing else.\<close>

lemma zodOnly_None [simp]: "zodOnly None"
  by (simp add: zodOnly_def)

lemma z_object_zodOnly: "zodOnly (Some (z_object sh))"
  by (auto simp: zodOnly_def z_object_def Let_def split: jv.splits if_splits)

lemma mains_zodOnly [simp]:
  "zodOnly (Some pathSchema_axiomId)" "zodOnly (Some create_bodySchema)"
  "zodOnly (Some update_bodySchema)"
  by (simp_all add: pathSchema_axiomId_def create_bodySchema_def update_bodySchema_def
      z_object_zodOnly)



lemmas zod_eval = zodValidator_try_def parseIfPresent_def create_bodySchema_def
  update_bodySchema_def pathSchema_axiomId_def z_object_def fieldIssues_def fieldValue_def
  invalidType_def noOptions_def Let_def

lemma emptyObject_try:
  "zodValidator_try (noOptions\<lparr>bodySchema := Some create_bodySchema\<rparr>) emptyObject =
     (Some (ZodError [(''name'', ''Required''), (''description'', ''Required'')]), emptyObject)"
  by (simp add: zod_eval emptyObject_def request0_def)

lemma emptyPath_try:
  "zodValidator_try
     (noOptions\<lparr>pathSchema := Some pathSchema_axiomId, bodySchema := Some update_bodySchema\<rparr>)
     emptyPath = (Some (ZodError [(''axiomId'', ''Required'')]), emptyPath)"
  by (simp add: zod_eval emptyPath_def request0_def)

lemma request0_create_try:
  "zodValidator_try (noOptions\<lparr>bodySchema := Some create_bodySchema\<rparr>) request0 = (None, request0)"
  by (simp add: zod_eval request0_def)

lemma path_try:
  assumes "pathParameters e = JObj kvs" "map_of kvs ''axiomId'' = Some (JStr aid)" "aid \<noteq> []"
  shows "zodValidator_try (noOptions\<lparr>pathSchema := Some pathSchema_axiomId\<rparr>) e =
           (None, e\<lparr>pathParameters := JObj [(''axiomId'', JStr aid)]\<rparr>)"
proof -
  have "length aid \<ge> 1" using assms(3) by (cases aid) auto
  then show ?thesis
    using assms by (simp add: zod_eval)
qed




text \<open>The create handler: it throws on a \<open>null\<close> body, and what it returns is a 201.\<close>

lemma create_handler_null_body:
  assumes "evBody e = JNull"
  shows "\<exists>x. create_handler h e w = (Inl x, w)"
  using assms by (cases "getUserId e") (simp_all add: create_handler_def)

lemma create_handler_status:
  "create_handler h e w = (Inr res, w') \<Longrightarrow> statusCode res = 201"
  by (auto simp: create_handler_def created_def Let_def split: sum.splits prod.splits)

text \<open>
  The body the create handler receives from \<open>create_main\<close> is a body its schema has
  parsed, or a body the validator has skipped. The first has the fields of the declared
  type; of the second kind, \<open>null\<close> makes the handler throw and a primitive has no fields.
\<close>

lemma checkField_typed:
  "checkField (ZString lo hi) v = [] \<Longrightarrow> \<exists>s. v = JStr s"
  "checkField ZBoolean v = [] \<Longrightarrow> \<exists>b. v = JBool b"
  "checkField (ZIntMin m) v = [] \<Longrightarrow> \<exists>n. v = JNum n"
  by (cases v; simp)+

lemma fieldIssues_typed:
  assumes "fieldIssues kvs (k, f, opt) = []"
  shows "(opt \<and> fieldValue kvs k = JUndef) \<or> checkField f (fieldValue kvs k) = []"
  using assms by (auto simp: fieldIssues_def split: if_splits)

lemma validated_body_is_typed:
  assumes "create_bodySchema v = Inr b"
  shows "\<exists>inp. asCreateAxiomInput b = Inr inp"
proof -
  obtain kvs where v: "v = JObj kvs"
    using assms by (cases v) (auto simp: create_bodySchema_def z_object_def)
  have i: "fieldIssues kvs (''name'', ZString 1 (Some 100), False) = []"
    "fieldIssues kvs (''description'', ZString 1 (Some 500), False) = []"
    "fieldIssues kvs (''isActive'', ZBoolean, True) = []"
    "fieldIssues kvs (''sortOrder'', ZIntMin 0, True) = []"
    using assms by (auto simp: v create_bodySchema_def z_object_def Let_def split: if_splits)
  obtain n d where nd: "fieldValue kvs ''name'' = JStr n" "fieldValue kvs ''description'' = JStr d"
    using fieldIssues_typed [OF i(1)] fieldIssues_typed [OF i(2)] checkField_typed(1) by blast
  have a: "fieldValue kvs ''isActive'' = JUndef \<or> (\<exists>x. fieldValue kvs ''isActive'' = JBool x)"
    using fieldIssues_typed [OF i(3)] checkField_typed(2) by blast
  have s: "fieldValue kvs ''sortOrder'' = JUndef \<or> (\<exists>x. fieldValue kvs ''sortOrder'' = JNum x)"
    using fieldIssues_typed [OF i(4)] checkField_typed(3) by blast
  have b: "b = JObj (List.map_filter
                  (\<lambda>(k, f, opt). if fieldValue kvs k = JUndef then None else Some (k, fieldValue kvs k))
                  [(''name'', ZString 1 (Some 100), False),
                   (''description'', ZString 1 (Some 500), False),
                   (''isActive'', ZBoolean, True),
                   (''sortOrder'', ZIntMin 0, True)])"
    using assms by (auto simp: v create_bodySchema_def z_object_def Let_def split: if_splits)
  show ?thesis
    using a s by (auto simp: b nd asCreateAxiomInput_def List.map_filter_simps)
qed

lemma primitive_body_is_typed:
  assumes "\<not> truthy v" "v \<noteq> JNull" "v \<noteq> JUndef"
  shows "asCreateAxiomInput v =
     Inr \<lparr>in_name = None, in_description = None, in_isActive = None, in_sortOrder = None\<rparr>"
  using assms by (cases v) (simp_all add: asCreateAxiomInput_def)

lemma validated_update_is_typed:
  assumes "update_bodySchema v = Inr b"
  shows "\<exists>inp. asUpdateAxiomInput b = Inr inp"
proof -
  obtain kvs where v: "v = JObj kvs"
    using assms by (cases v) (auto simp: update_bodySchema_def z_object_def)
  have i: "fieldIssues kvs (''name'', ZString 1 (Some 100), True) = []"
    "fieldIssues kvs (''description'', ZString 1 (Some 500), True) = []"
    "fieldIssues kvs (''isActive'', ZBoolean, True) = []"
    "fieldIssues kvs (''sortOrder'', ZIntMin 0, True) = []"
    using assms by (auto simp: v update_bodySchema_def z_object_def Let_def split: if_splits)
  have n: "fieldValue kvs ''name'' = JUndef \<or> (\<exists>x. fieldValue kvs ''name'' = JStr x)"
    using fieldIssues_typed [OF i(1)] checkField_typed(1) by blast
  have d: "fieldValue kvs ''description'' = JUndef \<or> (\<exists>x. fieldValue kvs ''description'' = JStr x)"
    using fieldIssues_typed [OF i(2)] checkField_typed(1) by blast
  have a: "fieldValue kvs ''isActive'' = JUndef \<or> (\<exists>x. fieldValue kvs ''isActive'' = JBool x)"
    using fieldIssues_typed [OF i(3)] checkField_typed(2) by blast
  have s: "fieldValue kvs ''sortOrder'' = JUndef \<or> (\<exists>x. fieldValue kvs ''sortOrder'' = JNum x)"
    using fieldIssues_typed [OF i(4)] checkField_typed(3) by blast
  have b: "b = JObj (List.map_filter
                  (\<lambda>(k, f, opt). if fieldValue kvs k = JUndef then None else Some (k, fieldValue kvs k))
                  [(''name'', ZString 1 (Some 100), True),
                   (''description'', ZString 1 (Some 500), True),
                   (''isActive'', ZBoolean, True),
                   (''sortOrder'', ZIntMin 0, True)])"
    using assms by (auto simp: v update_bodySchema_def z_object_def Let_def split: if_splits)
  show ?thesis
    using n d a s by (auto simp: b asUpdateAxiomInput_def List.map_filter_simps)
qed

lemma outOfRange_try:
  "zodValidator_try
     (noOptions\<lparr>pathSchema := Some pathSchema_axiomId, bodySchema := Some update_bodySchema\<rparr>)
     outOfRange = (None, outOfRange)"
  by (simp add: zod_eval outOfRange_def askFor_def request0_def List.map_filter_simps)

lemma createRequest_try:
  "zodValidator_try (noOptions\<lparr>bodySchema := Some create_bodySchema\<rparr>) createRequest =
     (None, createRequest)"
  by (simp add: zod_eval createRequest_def request0_def List.map_filter_simps)

lemma emptyQuery_try:
  "zodValidator_try (noOptions\<lparr>querySchema := Some pathSchema_axiomId\<rparr>) emptyQuery =
     (Some (ZodError [(''axiomId'', ''Required'')]), emptyQuery)"
  by (simp add: zod_eval emptyQuery_def request0_def)

section \<open>Claims about the pipeline\<close>

text \<open>
  C9. A get request by a caller for an identifier is answered the same way whether no
  record of that identifier exists at all (\<open>t1\<close>) or one exists under another owner only
  (\<open>t2\<close>): the handler returns the same 404 response with the same body, and the whole
  pipeline returns the same response and writes the same log entries.
\<close>

theorem get_not_found_is_uniform:
  assumes "getUserId e = Inr uid" "pathParameters e = JObj kvs"
    and "map_of kvs ''axiomId'' = Some (JStr aid)" "aid \<noteq> []"
    and "\<forall>a\<in>set t1. axiomId a \<noteq> aid"
    and "\<exists>b\<in>set t2. axiomId b = aid \<and> userId b \<noteq> uid"
    and "\<forall>a\<in>set t2. axiomId a = aid \<longrightarrow> userId a \<noteq> uid"
  shows "fst (get_handler h e \<lparr>table = t1, logged = l, drawn = d\<rparr>)
         = Inr (notFound h ''Axiom not found'')
     \<and> fst (get_handler h e \<lparr>table = t2, logged = l, drawn = d\<rparr>)
         = Inr (notFound h ''Axiom not found'')
     \<and> statusCode (notFound h ''Axiom not found'') = 404
     \<and> body (notFound h ''Axiom not found'') = ErrorBody ''Not Found'' ''Axiom not found'' None
     \<and> fst (get_main h e \<lparr>table = t1, logged = l, drawn = d\<rparr>)
         = fst (get_main h e \<lparr>table = t2, logged = l, drawn = d\<rparr>)
     \<and> logged (snd (get_main h e \<lparr>table = t1, logged = l, drawn = d\<rparr>))
         = logged (snd (get_main h e \<lparr>table = t2, logged = l, drawn = d\<rparr>))
     \<and> (case fst (get_main h e \<lparr>table = t2, logged = l, drawn = d\<rparr>) of
           Returned (Some res) \<Rightarrow> statusCode res = 404
             \<and> body res = ErrorBody ''Not Found'' ''Axiom not found'' None
         | _ \<Rightarrow> False)"
proof -
  let ?e' = "e\<lparr>pathParameters := JObj [(''axiomId'', JStr aid)]\<rparr>"
  have n: "findById uid aid t1 = None" "findById uid aid t2 = None"
    using assms by (auto simp: findById_None_iff)
  have p: "getProp (pathParameters e) ''axiomId'' = Inr (JStr aid)"
    using assms(2,3) by simp
  have hd: "get_handler h e \<lparr>table = t, logged = l', drawn = d\<rparr> =
      (Inr (notFound h ''Axiom not found''),
       logger ''Getting axiom'' \<lparr>table = t, logged = l', drawn = d\<rparr>)"
    "get_handler h ?e' \<lparr>table = t, logged = l', drawn = d\<rparr> =
      (Inr (notFound h ''Axiom not found''),
       logger ''Getting axiom'' \<lparr>table = t, logged = l', drawn = d\<rparr>)"
    if "findById uid aid t = None" for t l'
    using that assms(1,4) p by (simp_all add: get_handler_absent getUserId_def)
  have m: "get_main h e \<lparr>table = t, logged = l, drawn = d\<rparr> =
      (Returned (Some ((notFound h ''Axiom not found'')
          \<lparr>headers := corsHeaders h (defaultOrigins h) ?e'
              ((headers (notFound h ''Axiom not found''))
                 (''X-Correlation-Id'' \<mapsto> resolveCorrelationId h e))\<rparr>)),
       logger ''Request completed''
         (logger ''Getting axiom''
            (logger ''Request received'' \<lparr>table = t, logged = l, drawn = d\<rparr>)))"
    if "findById uid aid t = None" for t
    using hd(2) [OF that, of "l @ [''Request received'']"]
    by (simp add: get_main_def pipeline_dispatches [OF path_try [OF assms(2-4)]] dispatch_def
        chosenOrigins_def logger_def) (simp add: noOptions_def)
  show ?thesis
    using n by (simp add: hd m) (simp add: notFound_def logger_def)
qed

text \<open>
  The caller \<open>alice\<close> asks for \<open>z\<close>: no record \<open>z\<close> in the first table, a record \<open>z\<close> of \<open>bob\<close> in
  the second.
\<close>

theorem get_not_found_is_uniform_witness:
  "getUserId (askFor ''z'') = Inr ''alice''
   \<and> axiomId aliceAxiom \<noteq> ''z'' \<and> axiomId systemAxiom \<noteq> ''z''
   \<and> axiomId bobAxiom = ''z'' \<and> userId bobAxiom \<noteq> ''alice''
   \<and> fst (get_main prodHost (askFor ''z'')
            \<lparr>table = [aliceAxiom, systemAxiom], logged = [], drawn = 0\<rparr>)
       = fst (get_main prodHost (askFor ''z'')
            \<lparr>table = [aliceAxiom, bobAxiom], logged = [], drawn = 0\<rparr>)
   \<and> fst (get_handler prodHost (askFor ''z'')
            \<lparr>table = [aliceAxiom, bobAxiom], logged = [], drawn = 0\<rparr>)
       = Inr (notFound prodHost ''Axiom not found'')"
proof -
  have a: "getUserId (askFor ''z'') = Inr ''alice''"
    "pathParameters (askFor ''z'') = JObj [(''axiomId'', JStr ''z'')]"
    "map_of [(''axiomId'', JStr ''z'')] ''axiomId'' = Some (JStr ''z'')" "''z'' \<noteq> []"
    by (simp_all add: askFor_def request0_def getUserId_def)
  have b: "\<forall>a\<in>set [aliceAxiom, systemAxiom]. axiomId a \<noteq> ''z''"
    "\<exists>b\<in>set [aliceAxiom, bobAxiom]. axiomId b = ''z'' \<and> userId b \<noteq> ''alice''"
    "\<forall>a\<in>set [aliceAxiom, bobAxiom]. axiomId a = ''z'' \<longrightarrow> userId a \<noteq> ''alice''"
    by (simp_all add: aliceAxiom_def systemAxiom_def bobAxiom_def)
  have f: "axiomId aliceAxiom \<noteq> ''z'' \<and> axiomId systemAxiom \<noteq> ''z''
     \<and> axiomId bobAxiom = ''z'' \<and> userId bobAxiom \<noteq> ''alice''"
    by (simp add: aliceAxiom_def systemAxiom_def bobAxiom_def)
  note c = get_not_found_is_uniform [OF a b, where h = prodHost and l = "[]" and d = 0]
  show ?thesis
    using a(1) f c [THEN conjunct2, THEN conjunct1]
      c [THEN conjunct2, THEN conjunct2, THEN conjunct2, THEN conjunct2, THEN conjunct1]
    by blast
qed

text \<open>
  C1, as amended. The post-invocation step runs, and the response carries the
  \<open>X-Correlation-Id\<close> header with the correlation id resolved on entry, on every request
  whose handler is invoked and returns a response. A response the validator returns
  before the handler (400) reaches the caller without the step having run: no header, no
  completion event. So does a response the error handler makes after the handler threw.
\<close>

theorem correlation_header_only_after_handler:
  "(\<forall>e' res w2. zodValidator_try options e = (None, e')
        \<and> lh e' (logger ''Request received'' w) = (Inr res, w2) \<longrightarrow>
      (\<exists>res'. withMiddleware h lh options e w =
           (Returned (Some res'), logger ''Request completed'' w2)
         \<and> headers res' ''X-Correlation-Id'' = Some (resolveCorrelationId h e)
         \<and> resolveCorrelationId h e \<noteq> []
         \<and> statusCode res' = statusCode res \<and> body res' = body res))
   \<and> (\<forall>errors e'. zodValidator_try options e = (Some (ZodError errors), e') \<longrightarrow>
      (\<exists>res'. withMiddleware h lh options e w =
           (Returned (Some res'),
            logger ''Request validation failed'' (logger ''Request received'' w))
         \<and> statusCode res' = 400 \<and> headers res' ''X-Correlation-Id'' = None))
   \<and> (\<forall>e' x w2. zodValidator_try options e = (None, e')
        \<and> lh e' (logger ''Request received'' w) = (Inl x, w2) \<longrightarrow>
      (case fst (withMiddleware h lh options e w) of
         Returned (Some res') \<Rightarrow> headers res' ''X-Correlation-Id'' = None
       | Returned None \<Rightarrow> False
       | Rejected y \<Rightarrow> y = x)
      \<and> snd (withMiddleware h lh options e w) =
          logger ''Request failed'' (logger ''Unhandled error'' w2))"
  by (auto simp: pipeline_returns pipeline_rejects pipeline_throws corsHeaders_other
      getCorsHeaders_keys)

text \<open>
  A list request, whose handler returns, gets the header; a create request with an empty
  object for a body, which the validator rejects, does not, and neither does a create
  request without a body, whose handler throws.
\<close>

theorem correlation_header_only_after_handler_witness:
  "zodValidator_try noOptions request0 = (None, request0)
   \<and> (case fst (list_main prodHost request0 world0) of
        Returned (Some res) \<Rightarrow> headers res ''X-Correlation-Id'' = Some ''req-1'' | _ \<Rightarrow> False)
   \<and> (case fst (create_main prodHost emptyObject world0) of
        Returned (Some res) \<Rightarrow> headers res ''X-Correlation-Id'' = None | _ \<Rightarrow> False)
   \<and> (case fst (create_main prodHost request0 world0) of
        Returned (Some res) \<Rightarrow> headers res ''X-Correlation-Id'' = None | _ \<Rightarrow> False)"
proof -
  have t: "zodValidator_try noOptions request0 = (None, request0)"
    by simp
  have u: "getUserId request0 = Inr ''alice''"
    by (simp add: getUserId_def request0_def)
  have c: "resolveCorrelationId prodHost request0 = ''req-1''"
    by (simp add: resolveCorrelationId_def orElse_def request0_def)
  note c1 = correlation_header_only_after_handler [where h = prodHost
      and lh = "list_handler prodHost" and options = noOptions and e = request0 and w = world0]
  note c2 = correlation_header_only_after_handler [where h = prodHost
      and lh = "create_handler prodHost"
      and options = "noOptions\<lparr>bodySchema := Some create_bodySchema\<rparr>"
      and e = emptyObject and w = world0]
  have "\<exists>res'. withMiddleware prodHost (list_handler prodHost) noOptions request0 world0 =
          (Returned (Some res'),
           logger ''Request completed''
             (logger ''Listing axioms for user'' (logger ''Request received'' world0)))
        \<and> headers res' ''X-Correlation-Id'' = Some (resolveCorrelationId prodHost request0)"
    using c1 [THEN conjunct1, THEN spec, THEN spec, THEN spec, THEN mp,
        OF conjI [OF t list_handler_result [OF u]]]
    by blast
  then have r1: "(case fst (list_main prodHost request0 world0) of
        Returned (Some res) \<Rightarrow> headers res ''X-Correlation-Id'' = Some ''req-1'' | _ \<Rightarrow> False)"
    by (auto simp: list_main_def c)
  have "\<exists>res'. withMiddleware prodHost (create_handler prodHost)
            (noOptions\<lparr>bodySchema := Some create_bodySchema\<rparr>) emptyObject world0 =
          (Returned (Some res'),
           logger ''Request validation failed'' (logger ''Request received'' world0))
        \<and> statusCode res' = 400 \<and> headers res' ''X-Correlation-Id'' = None"
    using c2 [THEN conjunct2, THEN conjunct1, THEN spec, THEN spec, THEN mp, OF emptyObject_try]
    by blast
  then have r2: "(case fst (create_main prodHost emptyObject world0) of
        Returned (Some res) \<Rightarrow> headers res ''X-Correlation-Id'' = None | _ \<Rightarrow> False)"
    by (auto simp: create_main_def)
  note c3 = correlation_header_only_after_handler [where h = prodHost
      and lh = "create_handler prodHost"
      and options = "noOptions\<lparr>bodySchema := Some create_bodySchema\<rparr>"
      and e = request0 and w = world0]
  have th: "create_handler prodHost request0 (logger ''Request received'' world0) =
      (Inl (TypeError ''Cannot read properties of null (reading name)''),
       logger ''Request received'' world0)"
    by (simp add: create_handler_def getUserId_def request0_def)
  have "(case fst (withMiddleware prodHost (create_handler prodHost)
            (noOptions\<lparr>bodySchema := Some create_bodySchema\<rparr>) request0 world0) of
         Returned (Some res') \<Rightarrow> headers res' ''X-Correlation-Id'' = None
       | Returned None \<Rightarrow> False
       | Rejected y \<Rightarrow> y = TypeError ''Cannot read properties of null (reading name)'')"
    using c3 [THEN conjunct2, THEN conjunct2, THEN spec, THEN spec, THEN spec, THEN mp,
        OF conjI [OF request0_create_try th]]
    by blast
  moreover have "fallback500 prodHost"
    by (simp add: prodHost_def)
  ultimately have r3: "(case fst (create_main prodHost request0 world0) of
        Returned (Some res) \<Rightarrow> headers res ''X-Correlation-Id'' = None | _ \<Rightarrow> False)"
    using th
    by (simp add: create_main_def pipeline_dispatches [OF request0_create_try] dispatch_def)
  show ?thesis
    using t r1 r2 r3 by simp
qed

text \<open>
  Against C1 as stated: the create request with an empty object for a body is answered
  400 with the validator's own headers, among which there is no \<open>X-Correlation-Id\<close>, and
  the log has no completion event.
\<close>

theorem validation_response_lacks_correlation_header:
  "fst (create_main prodHost emptyObject world0) =
     Returned (Some \<lparr>statusCode = 400, headers = getCorsHeaders prodHost,
       body = ErrorBody ''Validation Error'' ''Invalid request data''
                (Some [(''name'', ''Required''), (''description'', ''Required'')])\<rparr>)
   \<and> getCorsHeaders prodHost ''X-Correlation-Id'' = None
   \<and> logged (snd (create_main prodHost emptyObject world0)) =
       [''Request received'', ''Request validation failed'']"
  by (simp add: create_main_def pipeline_rejects [OF emptyObject_try] getCorsHeaders_keys
      logger_def world0_def)







text \<open>
  C8, as amended. When the body is present (truthy) and its declared schema rejects it,
  the pipeline returns 400 and its details are the body's issues, one entry (path,
  message) for each; when the body passes or is skipped and the path parameters are
  present and rejected, the details are the path's issues; when both pass or are skipped
  and the query parameters are present and rejected, the details are the query's issues.
  The answer is the same whatever the handler is, which is never invoked, and nothing is
  written but the two log entries. A part that is absent or empty is not validated.
\<close>

theorem validation_failure_short_circuits:
  "(\<forall>s. bodySchema options = Some s \<and> truthy (evBody e)
        \<and> s (evBody e) = Inl (ZodError errors) \<longrightarrow>
      withMiddleware h lh options e w = rejectedWith h errors w)
   \<and> (\<forall>s b. parseIfPresent (bodySchema options) (evBody e) = Inr b
        \<and> pathSchema options = Some s \<and> truthy (pathParameters e)
        \<and> s (pathParameters e) = Inl (ZodError errors) \<longrightarrow>
      withMiddleware h lh options e w = rejectedWith h errors w)
   \<and> (\<forall>s b p. parseIfPresent (bodySchema options) (evBody e) = Inr b
        \<and> parseIfPresent (pathSchema options) (pathParameters e) = Inr p
        \<and> querySchema options = Some s \<and> truthy (queryStringParameters e)
        \<and> s (queryStringParameters e) = Inl (ZodError errors) \<longrightarrow>
      withMiddleware h lh options e w = rejectedWith h errors w)
   \<and> (case fst (rejectedWith h errors w) of
         Returned (Some res) \<Rightarrow> statusCode res = 400
           \<and> body res = ErrorBody ''Validation Error'' ''Invalid request data'' (Some errors)
       | _ \<Rightarrow> False)
   \<and> table (snd (rejectedWith h errors w)) = table w
   \<and> logged (snd (rejectedWith h errors w)) =
       logged w @ [''Request received'', ''Request validation failed'']
   \<and> (\<not> truthy v \<longrightarrow> parseIfPresent sch v = Inr v)"
proof -
  have b: "withMiddleware h lh options e w = rejectedWith h errors w"
    if "bodySchema options = Some s \<and> truthy (evBody e) \<and> s (evBody e) = Inl (ZodError errors)"
    for s
  proof -
    have "zodValidator_try options e = (Some (ZodError errors), e)"
      using that by (simp add: zodValidator_try_def parseIfPresent_def)
    then show ?thesis
      by (simp add: pipeline_rejects rejectedWith_def)
  qed
  have p: "withMiddleware h lh options e w = rejectedWith h errors w"
    if "parseIfPresent (bodySchema options) (evBody e) = Inr b
        \<and> pathSchema options = Some s \<and> truthy (pathParameters e)
        \<and> s (pathParameters e) = Inl (ZodError errors)"
    for s b
  proof -
    have "zodValidator_try options e = (Some (ZodError errors), e\<lparr>evBody := b\<rparr>)"
      using that by (simp add: zodValidator_try_def Let_def) (simp add: parseIfPresent_def)
    then show ?thesis
      by (simp add: pipeline_rejects rejectedWith_def)
  qed
  have q: "withMiddleware h lh options e w = rejectedWith h errors w"
    if "parseIfPresent (bodySchema options) (evBody e) = Inr b
        \<and> parseIfPresent (pathSchema options) (pathParameters e) = Inr p
        \<and> querySchema options = Some s \<and> truthy (queryStringParameters e)
        \<and> s (queryStringParameters e) = Inl (ZodError errors)"
    for s b p
  proof -
    have "zodValidator_try options e =
        (Some (ZodError errors), e\<lparr>evBody := b, pathParameters := p\<rparr>)"
      using that by (simp add: zodValidator_try_def Let_def) (simp add: parseIfPresent_def)
    then show ?thesis
      by (simp add: pipeline_rejects rejectedWith_def)
  qed
  have r: "(case fst (rejectedWith h errors w) of
         Returned (Some res) \<Rightarrow> statusCode res = 400
           \<and> body res = ErrorBody ''Validation Error'' ''Invalid request data'' (Some errors)
       | _ \<Rightarrow> False)"
    "table (snd (rejectedWith h errors w)) = table w"
    "logged (snd (rejectedWith h errors w)) =
       logged w @ [''Request received'', ''Request validation failed'']"
    by (simp_all add: rejectedWith_def logger_def)
  have n: "\<not> truthy v \<longrightarrow> parseIfPresent sch v = Inr v"
    by (simp add: parseIfPresent_def split: option.splits)
  from b p q r n show ?thesis
    by blast
qed

text \<open>
  The create request with an empty object for a body: two fields are missing. The update
  request without a body and with empty path parameters: the identifier is missing. A
  request with empty query parameters to an operation that declares a schema for them.
\<close>

theorem validation_failure_short_circuits_witness:
  "create_bodySchema (evBody emptyObject)
       = Inl (ZodError [(''name'', ''Required''), (''description'', ''Required'')])
   \<and> truthy (evBody emptyObject)
   \<and> create_main prodHost emptyObject world0
       = rejectedWith prodHost [(''name'', ''Required''), (''description'', ''Required'')] world0
   \<and> answers400 (fst (create_main prodHost emptyObject world0))
   \<and> table (snd (create_main prodHost emptyObject world0)) = table world0
   \<and> pathSchema_axiomId (pathParameters emptyPath) = Inl (ZodError [(''axiomId'', ''Required'')])
   \<and> update_main prodHost emptyPath world0
       = rejectedWith prodHost [(''axiomId'', ''Required'')] world0
   \<and> withMiddleware prodHost (list_handler prodHost)
         (noOptions\<lparr>querySchema := Some pathSchema_axiomId\<rparr>) emptyQuery world0
       = rejectedWith prodHost [(''axiomId'', ''Required'')] world0"
proof -
  let ?co = "noOptions\<lparr>bodySchema := Some create_bodySchema\<rparr>"
  let ?uo = "noOptions\<lparr>pathSchema := Some pathSchema_axiomId, bodySchema := Some update_bodySchema\<rparr>"
  let ?qo = "noOptions\<lparr>querySchema := Some pathSchema_axiomId\<rparr>"
  have b: "bodySchema ?co = Some create_bodySchema \<and> truthy (evBody emptyObject)
      \<and> create_bodySchema (evBody emptyObject)
          = Inl (ZodError [(''name'', ''Required''), (''description'', ''Required'')])"
    by (simp add: zod_eval emptyObject_def request0_def)
  have p: "parseIfPresent (bodySchema ?uo) (evBody emptyPath) = Inr JNull
      \<and> pathSchema ?uo = Some pathSchema_axiomId \<and> truthy (pathParameters emptyPath)
      \<and> pathSchema_axiomId (pathParameters emptyPath) = Inl (ZodError [(''axiomId'', ''Required'')])"
    by (simp add: zod_eval emptyPath_def request0_def)
  have q: "parseIfPresent (bodySchema ?qo) (evBody emptyQuery) = Inr JNull
      \<and> parseIfPresent (pathSchema ?qo) (pathParameters emptyQuery) = Inr JNull
      \<and> querySchema ?qo = Some pathSchema_axiomId \<and> truthy (queryStringParameters emptyQuery)
      \<and> pathSchema_axiomId (queryStringParameters emptyQuery)
          = Inl (ZodError [(''axiomId'', ''Required'')])"
    by (simp add: zod_eval emptyQuery_def request0_def)
  note c1 = validation_failure_short_circuits [where h = prodHost and lh = "create_handler prodHost"
      and options = ?co and e = emptyObject and w = world0
      and errors = "[(''name'', ''Required''), (''description'', ''Required'')]"]
  note c2 = validation_failure_short_circuits [where h = prodHost and lh = "update_handler prodHost"
      and options = ?uo and e = emptyPath and w = world0 and errors = "[(''axiomId'', ''Required'')]"]
  note c3 = validation_failure_short_circuits [where h = prodHost and lh = "list_handler prodHost"
      and options = ?qo and e = emptyQuery and w = world0 and errors = "[(''axiomId'', ''Required'')]"]
  have r1: "create_main prodHost emptyObject world0
       = rejectedWith prodHost [(''name'', ''Required''), (''description'', ''Required'')] world0"
    using c1 [THEN conjunct1, THEN spec, THEN mp, OF b] by (simp add: create_main_def)
  have r2: "update_main prodHost emptyPath world0
       = rejectedWith prodHost [(''axiomId'', ''Required'')] world0"
    using c2 [THEN conjunct2, THEN conjunct1, THEN spec, THEN spec, THEN mp, OF p]
    by (simp add: update_main_def)
  have r3: "withMiddleware prodHost (list_handler prodHost) ?qo emptyQuery world0
       = rejectedWith prodHost [(''axiomId'', ''Required'')] world0"
    by (rule c3 [THEN conjunct2, THEN conjunct2, THEN conjunct1, THEN spec, THEN spec, THEN spec,
        THEN mp, OF q])
  have r4: "answers400 (fst (create_main prodHost emptyObject world0))"
    "table (snd (create_main prodHost emptyObject world0)) = table world0"
    using c1 [THEN conjunct2, THEN conjunct2, THEN conjunct2, THEN conjunct1]
      c1 [THEN conjunct2, THEN conjunct2, THEN conjunct2, THEN conjunct2, THEN conjunct1]
    by (auto simp: r1 answers400_def split: outcome.splits option.splits)
  show ?thesis
    using b p r1 r2 r3 r4 by simp
qed

text \<open>
  Against C8 as stated: the create request without a body violates the body schema (the
  schema rejects \<open>null\<close>), and yet it is not answered 400: the handler is invoked and throws.
\<close>

theorem absent_body_is_not_rejected:
  "create_bodySchema (evBody request0) = Inl (ZodError [([], ''Expected object, received null'')])
   \<and> \<not> answers400 (fst (create_main prodHost request0 world0))
   \<and> fst (create_main (prodHost\<lparr>fallback500 := False\<rparr>) request0 world0)
       = Rejected (TypeError ''Cannot read properties of null (reading name)'')
   \<and> fst (create_handler prodHost request0 (logger ''Request received'' world0))
       = Inl (TypeError ''Cannot read properties of null (reading name)'')"
proof -
  have c: "create_handler h request0 w =
      (Inl (TypeError ''Cannot read properties of null (reading name)''), w)" for h w
    by (simp add: create_handler_def getUserId_def request0_def)
  show ?thesis
    by (simp add: create_main_def pipeline_dispatches [OF request0_create_try] dispatch_def c
        answers400_def prodHost_def)
       (simp add: zod_eval request0_def)
qed

text \<open>
  C10, as amended. When the body is absent or empty (falsy) the validator skips the body
  schema altogether: the pipeline answers as if no body schema were declared, and the
  body stays as it arrived. The handler is invoked with that raw body whenever the path
  and query parameters pass their own checks, always so when the body schema is the only
  one declared. For the create operation this means that the handler is invoked and the
  request is never answered 400; when there is no body (\<open>null\<close>) the handler throws, a
  \<open>TypeError\<close> on the \<open>null\<close> body when the caller is known, and the request ends in the
  error handler's 500 or in a rejected invocation.
\<close>

theorem absent_body_skips_body_validation:
  assumes "\<not> truthy (evBody e)"
  shows "zodValidator_try options e = zodValidator_try (options\<lparr>bodySchema := None\<rparr>) e
     \<and> withMiddleware h lh options e w = withMiddleware h lh (options\<lparr>bodySchema := None\<rparr>) e w
     \<and> (\<forall>e'. zodValidator_try options e = (None, e') \<longrightarrow>
           evBody e' = evBody e \<and> withMiddleware h lh options e w = dispatch h lh options e e' w)
     \<and> (pathSchema options = None \<and> querySchema options = None \<longrightarrow>
           withMiddleware h lh options e w = dispatch h lh options e e w)
     \<and> create_main h e w =
         dispatch h (create_handler h) (noOptions\<lparr>bodySchema := Some create_bodySchema\<rparr>) e e w
     \<and> (evBody e = JNull \<longrightarrow>
           (\<exists>x. create_handler h e (logger ''Request received'' w) =
                  (Inl x, logger ''Request received'' w)))
     \<and> \<not> answers400 (fst (create_main h e w))
     \<and> (\<forall>uid. evBody e = JNull \<and> getUserId e = Inr uid \<longrightarrow>
           fst (create_main h e w) =
             (if fallback500 h
              then Returned (Some \<lparr>statusCode = 500,
                     headers = corsHeaders h (defaultOrigins h) e Map.empty, body = NoBody\<rparr>)
              else Rejected (TypeError ''Cannot read properties of null (reading name)'')))"
proof -
  let ?co = "noOptions\<lparr>bodySchema := Some create_bodySchema\<rparr>"
  have a: "zodValidator_try options e = zodValidator_try (options\<lparr>bodySchema := None\<rparr>) e"
    using assms by (rule try_skips_body)
  have b: "withMiddleware h lh options e w =
      withMiddleware h lh (options\<lparr>bodySchema := None\<rparr>) e w"
    using a by (rule withMiddleware_try_cong) (simp add: chosenOrigins_def)
  have c: "evBody e' = evBody e \<and> withMiddleware h lh options e w = dispatch h lh options e e' w"
    if "zodValidator_try options e = (None, e')" for e'
    using that try_keeps_body [OF assms, of options] by (simp add: pipeline_dispatches)
  have d: "withMiddleware h lh options e w = dispatch h lh options e e w"
    if "pathSchema options = None \<and> querySchema options = None"
    using that try_body_only [OF assms] by (simp add: pipeline_dispatches)
  have t: "zodValidator_try ?co e = (None, e)"
    using assms by (simp add: try_body_only noOptions_def)
  have m: "create_main h e w = dispatch h (create_handler h) ?co e e w"
    using t by (simp add: create_main_def pipeline_dispatches)
  have f: "\<exists>x. create_handler h e (logger ''Request received'' w) =
                  (Inl x, logger ''Request received'' w)"
    if "evBody e = JNull"
    using that by (rule create_handler_null_body)
  have n: "\<not> answers400 (fst (create_main h e w))"
    by (cases "create_handler h e (logger ''Request received'' w)";
        cases "fst (create_handler h e (logger ''Request received'' w))")
       (auto simp: m dispatch_def answers400_def dest: create_handler_status)
  have g: "fst (create_main h e w) =
             (if fallback500 h
              then Returned (Some \<lparr>statusCode = 500,
                     headers = corsHeaders h (defaultOrigins h) e Map.empty, body = NoBody\<rparr>)
              else Rejected (TypeError ''Cannot read properties of null (reading name)''))"
    if "evBody e = JNull \<and> getUserId e = Inr uid" for uid
    using that
    by (simp add: m dispatch_def create_handler_def chosenOrigins_def noOptions_def)
  from a b c d m f n g show ?thesis by blast
qed

text \<open>The create request of the caller \<open>alice\<close> without a body.\<close>

theorem absent_body_skips_body_validation_witness:
  "\<not> truthy (evBody request0)
   \<and> fst (create_main (prodHost\<lparr>fallback500 := False\<rparr>) request0 world0) =
       Rejected (TypeError ''Cannot read properties of null (reading name)'')
   \<and> \<not> answers400 (fst (create_main prodHost request0 world0))"
proof -
  have a: "\<not> truthy (evBody request0)"
    by (simp add: request0_def)
  have b: "evBody request0 = JNull \<and> getUserId request0 = Inr ''alice''"
    by (simp add: request0_def getUserId_def)
  note c1 = absent_body_skips_body_validation [OF a,
      where h = "prodHost\<lparr>fallback500 := False\<rparr>" and w = world0
        and lh = "create_handler prodHost" and options = noOptions]
  note c2 = absent_body_skips_body_validation [OF a, where h = prodHost and w = world0
        and lh = "create_handler prodHost" and options = noOptions]
  have r1: "fst (create_main (prodHost\<lparr>fallback500 := False\<rparr>) request0 world0) =
       Rejected (TypeError ''Cannot read properties of null (reading name)'')"
    using c1 [THEN conjunct2, THEN conjunct2, THEN conjunct2, THEN conjunct2, THEN conjunct2,
        THEN conjunct2, THEN conjunct2, THEN spec, THEN mp, OF b]
    by simp
  have r2: "\<not> answers400 (fst (create_main prodHost request0 world0))"
    by (rule c2 [THEN conjunct2, THEN conjunct2, THEN conjunct2, THEN conjunct2, THEN conjunct2,
        THEN conjunct2, THEN conjunct1])
  show ?thesis
    using a r1 r2 by simp
qed

text \<open>
  Against C10 as stated: an update request without a body and with empty path
  parameters is answered 400 by the validator; the handler, which would have logged its
  entry, is not invoked.
\<close>

theorem absent_body_with_bad_path_is_rejected:
  "\<not> truthy (evBody emptyPath)
   \<and> fst (update_main prodHost emptyPath world0) =
       Returned (Some \<lparr>statusCode = 400, headers = getCorsHeaders prodHost,
         body = ErrorBody ''Validation Error'' ''Invalid request data''
                  (Some [(''axiomId'', ''Required'')])\<rparr>)
   \<and> logged (snd (update_main prodHost emptyPath world0)) =
       [''Request received'', ''Request validation failed'']
   \<and> logged (snd (update_handler prodHost emptyPath (logger ''Request received'' world0))) =
       [''Request received'', ''Updating axiom'']"
  by (simp add: update_main_def pipeline_rejects [OF emptyPath_try] logger_def world0_def)
     (simp add: emptyPath_def request0_def update_handler_def getUserId_def logger_def
        clientError_def)

section \<open>Claims about the write operations\<close>

text \<open>
  Against C5 as stated: the caller \<open>alice\<close> asks for the \<open>sortOrder\<close> \<open>2^53\<close> on her record. The
  body passes its schema, the document client refuses the number, \<open>update\<close> throws, the
  request is answered 500, and the record is as it was, \<open>updatedAt\<close> included.
\<close>

theorem unsafe_sortOrder_is_refused:
  "findById ''alice'' ''a'' (table world0) = Some aliceAxiom
   \<and> \<not> isDefault aliceAxiom
   \<and> update_bodySchema (evBody outOfRange) = Inr (evBody outOfRange)
   \<and> asUpdateAxiomInput (evBody outOfRange) =
       Inr \<lparr>up_name = None, up_description = None, up_isActive = None,
            up_sortOrder = Some 9007199254740992\<rparr>
   \<and> update prodHost ''alice'' ''a''
         \<lparr>up_name = None, up_description = None, up_isActive = None,
          up_sortOrder = Some 9007199254740992\<rparr> (table world0) =
       Inl (Error ''Number 9007199254740992 is greater than Number.MAX_SAFE_INTEGER. Use BigInt.'')
   \<and> fst (update_main prodHost outOfRange world0) =
       Returned (Some \<lparr>statusCode = 500,
         headers = corsHeaders prodHost (defaultOrigins prodHost) outOfRange Map.empty,
         body = NoBody\<rparr>)
   \<and> table (snd (update_main prodHost outOfRange world0)) = table world0
   \<and> updatedAt aliceAxiom \<noteq> isoNow prodHost"
proof -
  let ?inp = "\<lparr>up_name = None, up_description = None, up_isActive = None,
          up_sortOrder = Some 9007199254740992\<rparr>"
  have f: "findById ''alice'' ''a'' (table world0) = Some aliceAxiom" "\<not> isDefault aliceAxiom"
    "updatedAt aliceAxiom \<noteq> isoNow prodHost"
    by (simp_all add: findById_def world0_def aliceAxiom_def prodHost_def)
  have v: "update_bodySchema (evBody outOfRange) = Inr (evBody outOfRange)"
    by (simp add: zod_eval outOfRange_def askFor_def request0_def List.map_filter_simps)
  have i: "asUpdateAxiomInput (evBody outOfRange) = Inr ?inp"
    by (simp add: asUpdateAxiomInput_def outOfRange_def askFor_def request0_def)
  have u: "update prodHost ''alice'' ''a'' ?inp t =
       Inl (Error ''Number 9007199254740992 is greater than Number.MAX_SAFE_INTEGER. Use BigInt.'')"
    for t
    by (simp add: update_unsafe MAX_SAFE_INTEGER_def decimal.simps char_of_def)
  have hd: "update_handler prodHost outOfRange w =
       (Inl (Error ''Number 9007199254740992 is greater than Number.MAX_SAFE_INTEGER. Use BigInt.''),
        logger ''Updating axiom'' w)" if "table w = table world0" for w
    using that f(1,2) i u [of "table world0"]
    by (simp add: update_handler_def Let_def)
       (simp add: outOfRange_def askFor_def request0_def getUserId_def)
  have m: "update_main prodHost outOfRange world0 =
      (Returned (Some \<lparr>statusCode = 500,
         headers = corsHeaders prodHost (defaultOrigins prodHost) outOfRange Map.empty,
         body = NoBody\<rparr>),
       logger ''Request failed'' (logger ''Unhandled error''
         (logger ''Updating axiom'' (logger ''Request received'' world0))))"
    by (simp add: update_main_def pipeline_dispatches [OF outOfRange_try] dispatch_def hd
        chosenOrigins_def) (simp add: noOptions_def prodHost_def)
  show ?thesis
    using f v i u [of "table world0"] by (simp add: m)
qed

text \<open>
  C7, against the code. \<open>create\<close> builds the record the claim describes: \<open>isDefault\<close> false,
  \<open>isActive\<close> and \<open>sortOrder\<close> as given or else \<open>true\<close> and \<open>0\<close>, one timestamp for \<open>createdAt\<close>
  and \<open>updatedAt\<close>, a freshly drawn identifier. It then puts the record with \<open>isDefault\<close> as
  the boolean \<open>false\<close>, while the table keys \<open>isDefault\<close> as a string in its index of the
  default records, the string that \<open>findDefaults\<close> asks for. The store refuses the put, so
  \<open>create\<close> throws for every input and no record is returned or stored; the create
  operation answers a valid request with the error handler's 500.
\<close>

theorem create_put_is_refused:
  "(\<exists>x. create h uid inp w = (Inl x, w\<lparr>drawn := Suc (drawn w)\<rparr>))
   \<and> (\<exists>x. putItem h a t = Inl x)
   \<and> create_bodySchema (evBody createRequest) = Inr (evBody createRequest)
   \<and> asCreateAxiomInput (evBody createRequest) =
       Inr \<lparr>in_name = Some ''Brevity'', in_description = Some ''Keep it short'',
            in_isActive = None, in_sortOrder = None\<rparr>
   \<and> create prodHost ''alice''
         \<lparr>in_name = Some ''Brevity'', in_description = Some ''Keep it short'',
          in_isActive = None, in_sortOrder = None\<rparr> world0 =
       (Inl (Error (''ValidationException: One or more parameter values were invalid: ''
          @ ''Type mismatch for Index Key isDefault Expected: S Actual: BOOL''
          @ '' IndexName: default-axioms-index'')),
        world0\<lparr>drawn := 1\<rparr>)
   \<and> fst (create_main prodHost createRequest world0) =
       Returned (Some \<lparr>statusCode = 500,
         headers = corsHeaders prodHost (defaultOrigins prodHost) createRequest Map.empty,
         body = NoBody\<rparr>)
   \<and> table (snd (create_main prodHost createRequest world0)) = table world0
   \<and> logged (snd (create_main prodHost createRequest world0)) =
       [''Request received'', ''Creating axiom'', ''Unhandled error'', ''Request failed'']"
proof -
  let ?inp = "\<lparr>in_name = Some ''Brevity'', in_description = Some ''Keep it short'',
          in_isActive = None, in_sortOrder = None\<rparr>"
  have v: "create_bodySchema (evBody createRequest) = Inr (evBody createRequest)"
    by (simp add: zod_eval createRequest_def request0_def List.map_filter_simps)
  have i: "asCreateAxiomInput (evBody createRequest) = Inr ?inp"
    by (simp add: asCreateAxiomInput_def createRequest_def request0_def)
  have c: "create prodHost ''alice'' ?inp w =
       (Inl (Error (''ValidationException: One or more parameter values were invalid: ''
          @ ''Type mismatch for Index Key isDefault Expected: S Actual: BOOL''
          @ '' IndexName: default-axioms-index'')),
        w\<lparr>drawn := Suc (drawn w)\<rparr>)" for w
    by (simp add: create_def putItem_def itemOf_def keyMismatch_def default_axioms_index_def
        Let_def prodHost_def MAX_SAFE_INTEGER_def)
  have hd: "create_handler prodHost createRequest w =
       (Inl (Error (''ValidationException: One or more parameter values were invalid: ''
          @ ''Type mismatch for Index Key isDefault Expected: S Actual: BOOL''
          @ '' IndexName: default-axioms-index'')),
        (logger ''Creating axiom'' w)\<lparr>drawn := Suc (drawn w)\<rparr>)" for w
    using c [of "logger ''Creating axiom'' w"] i
    by (simp add: create_handler_def createRequest_def request0_def getUserId_def logger_def
        Let_def)
  have m: "create_main prodHost createRequest world0 =
      (Returned (Some \<lparr>statusCode = 500,
         headers = corsHeaders prodHost (defaultOrigins prodHost) createRequest Map.empty,
         body = NoBody\<rparr>),
       logger ''Request failed'' (logger ''Unhandled error''
         ((logger ''Creating axiom'' (logger ''Request received'' world0))
            \<lparr>drawn := Suc (drawn (logger ''Request received'' world0))\<rparr>)))"
    by (simp add: create_main_def pipeline_dispatches [OF createRequest_try] dispatch_def hd
        chosenOrigins_def) (simp add: noOptions_def prodHost_def)
  have r: "table (snd (create_main prodHost createRequest world0)) = table world0"
    "logged (snd (create_main prodHost createRequest world0)) =
       [''Request received'', ''Creating axiom'', ''Unhandled error'', ''Request failed'']"
    by (simp_all add: m) (simp_all add: logger_def world0_def)
  have d0: "Suc (drawn world0) = 1"
    by (simp add: world0_def)
  show ?thesis
    using create_refused [of h uid inp w] putItem_refused [of h a t] v i c [of world0] m r
    by (simp add: d0)
qed

end
